(* ===== verification/Prelude.thy ===== *)
theory Prelude
  imports Main "HOL-Library.Word"
begin

text \<open>
  Shared vocabulary of the development: the types that name the script's data (paths,
  file contents as bytes), the decimal rendering of naturals that Python's \<open>str\<close>,
  f-strings and \<open>strftime\<close> perform, the inverse digit reader, and the lemmas
  relating them. The component theories use these through the \<open>fmt_simps\<close>
  collection.
\<close>

named_theorems fmt_simps "characteristic facts of the decimal rendering helpers"

type_synonym byte = "8 word"
type_synonym bytes = "byte list"
type_synonym path = string

section \<open>Decimal digits\<close>

definition digit_chr :: "nat \<Rightarrow> char" where
  "digit_chr d = char_of (48 + d)"

definition is_digit :: "char \<Rightarrow> bool" where
  "is_digit c \<longleftrightarrow> 48 \<le> (of_char c :: nat) \<and> (of_char c :: nat) \<le> 57"

definition digit_val :: "char \<Rightarrow> nat" where
  "digit_val c = of_char c - 48"

text \<open>\<open>dec n\<close> is Python's \<open>str(n)\<close> for a non-negative integer: no leading zeros.\<close>

fun dec :: "nat \<Rightarrow> string" where
  "dec n = (if n < 10 then [digit_chr n] else dec (n div 10) @ [digit_chr (n mod 10)])"

declare dec.simps [simp del]

text \<open>\<open>zpad w n\<close> is the C/Python conversion \<open>%0wd\<close>: \<open>str(n)\<close> left-padded with
  zeros to at least \<open>w\<close> characters.\<close>

definition zpad :: "nat \<Rightarrow> nat \<Rightarrow> string" where
  "zpad w n = replicate (w - length (dec n)) (CHR ''0'') @ dec n"

definition read_digits :: "string \<Rightarrow> nat" where
  "read_digits s = foldl (\<lambda>acc c. 10 * acc + digit_val c) 0 s"

text \<open>\<open>parse_nat\<close> accepts a non-empty run of decimal digits (leading zeros allowed).\<close>

definition parse_nat :: "string \<Rightarrow> nat option" where
  "parse_nat s = (if s \<noteq> [] \<and> list_all is_digit s then Some (read_digits s) else None)"

section \<open>Lemmas on digits\<close>

lemma digit_chr_is_digit [fmt_simps]: "d < 10 \<Longrightarrow> is_digit (digit_chr d)"
  by (simp add: digit_chr_def is_digit_def)

lemma digit_val_digit_chr [fmt_simps]: "d < 10 \<Longrightarrow> digit_val (digit_chr d) = d"
  by (simp add: digit_chr_def digit_val_def)

lemma digit_chr_table [fmt_simps]:
  "digit_chr 0 = CHR ''0''" "digit_chr (Suc 0) = CHR ''1''" "digit_chr 1 = CHR ''1''"
  "digit_chr 2 = CHR ''2''" "digit_chr 3 = CHR ''3''" "digit_chr 4 = CHR ''4''"
  "digit_chr 5 = CHR ''5''" "digit_chr 6 = CHR ''6''" "digit_chr 7 = CHR ''7''"
  "digit_chr 8 = CHR ''8''" "digit_chr 9 = CHR ''9''"
  by (simp_all add: digit_chr_def char_of_eq_iff take_bit_eq_mod)

lemma digit_chr_inj: "a < 10 \<Longrightarrow> b < 10 \<Longrightarrow> digit_chr a = digit_chr b \<longleftrightarrow> a = b"
  by (metis digit_val_digit_chr)

lemma is_digit_zero [fmt_simps]: "is_digit (CHR ''0'')"
  by (simp add: is_digit_def)

lemma digit_val_zero [fmt_simps]: "digit_val (CHR ''0'') = 0"
  by (simp add: digit_val_def)

lemma dec_nonempty [fmt_simps]: "dec n \<noteq> []"
  by (subst dec.simps) simp

lemma dec_digits [fmt_simps]: "list_all is_digit (dec n)"
proof (induction n rule: dec.induct)
  case (1 n)
  then show ?case
    by (subst dec.simps) (simp add: digit_chr_is_digit)
qed

lemma read_digits_append:
  "read_digits (xs @ ys) = read_digits xs * 10 ^ length ys + read_digits ys"
proof (induction ys rule: rev_induct)
  case Nil
  then show ?case by (simp add: read_digits_def)
next
  case (snoc y ys)
  then show ?case
    by (simp add: read_digits_def algebra_simps)
qed

lemma read_digits_single [fmt_simps]: "read_digits [c] = digit_val c"
  by (simp add: read_digits_def)

lemma read_digits_dec [fmt_simps]: "read_digits (dec n) = n"
proof (induction n rule: dec.induct)
  case (1 n)
  show ?case
  proof (cases "n < 10")
    case True
    then show ?thesis
      by (subst dec.simps) (simp add: read_digits_def digit_val_digit_chr)
  next
    case False
    with "1.IH" have "read_digits (dec (n div 10)) = n div 10" by simp
    with False show ?thesis
      by (subst dec.simps) (simp add: read_digits_append read_digits_single digit_val_digit_chr)
  qed
qed

lemma read_digits_replicate_zero: "read_digits (replicate k (CHR ''0'')) = 0"
  by (induction k) (simp_all add: read_digits_def digit_val_def)

lemma read_digits_zeros [fmt_simps]:
  "read_digits (replicate k (CHR ''0'') @ s) = read_digits s"
  by (simp add: read_digits_append read_digits_replicate_zero)

lemma length_dec_le: "n < 10 ^ k \<Longrightarrow> 0 < k \<Longrightarrow> length (dec n) \<le> k"
proof (induction n arbitrary: k rule: dec.induct)
  case (1 n)
  show ?case
  proof (cases "n < 10")
    case True
    with "1.prems" show ?thesis by (subst dec.simps) simp
  next
    case False
    from "1.prems" obtain k' where k: "k = Suc k'"
      by (cases k) auto
    with False "1.prems" have "0 < k'"
      by (cases k') auto
    with "1.prems" k have "n div 10 < 10 ^ k'"
      by (simp add: div_less_iff_less_mult mult.commute)
    with False "1.IH" \<open>0 < k'\<close> have "length (dec (n div 10)) \<le> k'" by simp
    with False k show ?thesis by (subst dec.simps) simp
  qed
qed

lemma zpad_digits [fmt_simps]: "list_all is_digit (zpad w n)"
  by (simp add: zpad_def dec_digits) (simp add: list_all_iff is_digit_zero)

lemma zpad_nonempty [fmt_simps]: "zpad w n \<noteq> []"
  by (simp add: zpad_def dec_nonempty)

lemma read_digits_zpad [fmt_simps]: "read_digits (zpad w n) = n"
  by (simp add: zpad_def read_digits_zeros read_digits_dec)

lemma length_zpad [fmt_simps]: "n < 10 ^ w \<Longrightarrow> 0 < w \<Longrightarrow> length (zpad w n) = w"
  using length_dec_le [of n w] by (simp add: zpad_def)

lemma parse_nat_zpad [fmt_simps]: "parse_nat (zpad w n) = Some n"
  by (simp add: parse_nat_def zpad_digits zpad_nonempty read_digits_zpad)

lemma parse_nat_SomeD:
  "parse_nat s = Some n \<Longrightarrow> s \<noteq> [] \<and> list_all is_digit s \<and> read_digits s = n"
  by (simp add: parse_nat_def split: if_splits)

lemma read_digits_Cons:
  "read_digits (c # s) = digit_val c * 10 ^ length s + read_digits s"
  using read_digits_append [of "[c]" s] by (simp add: read_digits_single)

lemma digit_val_less: "is_digit c \<Longrightarrow> digit_val c < 10"
  unfolding is_digit_def digit_val_def by linarith

lemma digit_val_inj: "is_digit a \<Longrightarrow> is_digit b \<Longrightarrow> digit_val a = digit_val b \<Longrightarrow> a = b"
proof -
  assume "is_digit a" "is_digit b" "digit_val a = digit_val b"
  then have "(of_char a :: nat) = of_char b"
    unfolding is_digit_def digit_val_def by linarith
  then show "a = b" by simp
qed

lemma read_digits_bound: "list_all is_digit s \<Longrightarrow> read_digits s < 10 ^ length s"
proof (induction s)
  case Nil
  then show ?case by (simp add: read_digits_def)
next
  case (Cons c s)
  then have "digit_val c \<le> 9" and "read_digits s < 10 ^ length s"
    using digit_val_less [of c] by auto
  then have "digit_val c * 10 ^ length s + read_digits s < 9 * 10 ^ length s + 10 ^ length s"
    by (meson add_le_less_mono mult_le_mono1)
  then show ?case by (simp add: read_digits_Cons)
qed

lemma weighted_digit_split:
  fixes a b r1 r2 k :: nat
  assumes "r1 < k" "r2 < k" "a * k + r1 = b * k + r2"
  shows "a = b \<and> r1 = r2"
proof -
  have "(a * k + r1) div k = a" using assms(1) by simp
  moreover have "(b * k + r2) div k = b" using assms(2) by simp
  ultimately have "a = b" using assms(3) by simp
  with assms(3) show ?thesis by simp
qed

text \<open>Two digit strings of the same length are equal when they denote the same number:
  the leading digit is the quotient by the weight of the rest.\<close>

lemma digits_eq:
  "length xs = length ys \<Longrightarrow> list_all is_digit xs \<Longrightarrow> list_all is_digit ys \<Longrightarrow>
   read_digits xs = read_digits ys \<Longrightarrow> xs = ys"
proof (induction xs ys rule: list_induct2)
  case Nil
  then show ?case by simp
next
  case (Cons x xs y ys)
  let ?k = "10 ^ length xs :: nat"
  from Cons.prems have "list_all is_digit xs" and "list_all is_digit ys" by simp_all
  then have "read_digits xs < ?k" and "read_digits ys < 10 ^ length ys"
    by (simp_all add: read_digits_bound)
  then have "read_digits xs < ?k" and "read_digits ys < ?k"
    using Cons.hyps(1) by simp_all
  moreover have eq: "digit_val x * ?k + read_digits xs = digit_val y * ?k + read_digits ys"
    using Cons.prems Cons.hyps(1) by (simp add: read_digits_Cons)
  ultimately have "digit_val x = digit_val y \<and> read_digits xs = read_digits ys"
    by (rule weighted_digit_split)
  with Cons show ?case by (auto intro: digit_val_inj)
qed

lemma zpad_read_digits:
  "list_all is_digit s \<Longrightarrow> s \<noteq> [] \<Longrightarrow> zpad (length s) (read_digits s) = s"
  by (rule digits_eq)
     (simp_all add: length_zpad read_digits_bound zpad_digits read_digits_zpad)

lemma parse_nat_zpad_eq:
  "parse_nat s = Some n \<Longrightarrow> zpad (length s) n = s"
  by (auto simp: parse_nat_def zpad_read_digits split: if_splits)

section \<open>Lists and options\<close>

text \<open>Decoding a list element-wise with a left inverse of the encoder.\<close>

lemma those_map_inverse:
  "list_all (\<lambda>x. f (g x) = Some x) xs \<Longrightarrow> those (map f (map g xs)) = Some xs"
  by (induction xs) simp_all

end
