(* ===== verification/PyRuntime.thy ===== *)
theory PyRuntime
  imports Prelude
begin

text \<open>
  The Python runtime values the script handles: the values of the request dictionary
  (strings, integers, lists), dictionary lookup, the exceptions that reach its
  \<open>try\<close>/\<open>except Exception\<close> blocks, and the levels and records of the
  \<open>logging\<close> module, with the level order as an instance of \<open>linorder\<close>.
\<close>

section \<open>Values and dictionaries\<close>

datatype pyval = PyStr string | PyInt int | PyList "pyval list"

text \<open>A dictionary in insertion order, as a dict display builds it.\<close>

type_synonym pydict = "(string \<times> pyval) list"

text \<open>\<open>d[k]\<close>: in a dict display a repeated key keeps its last value.\<close>

definition dict_get :: "pydict \<Rightarrow> string \<Rightarrow> pyval option" where
  "dict_get d k = map_of (rev d) k"

section \<open>Exceptions\<close>

text \<open>An exception object: an instance of a subclass of \<open>Exception\<close> (its class name
  and \<open>str(e)\<close>), or one of the \<open>BaseException\<close> subclasses that are not
  \<open>Exception\<close>s and so pass through \<open>except Exception\<close>.\<close>

datatype pyexc =
    PyException string string
  | KeyboardInterrupt
  | SystemExit int

fun is_exception :: "pyexc \<Rightarrow> bool" where
  "is_exception (PyException _ _) = True"
| "is_exception KeyboardInterrupt = False"
| "is_exception (SystemExit _) = False"

definition int_str :: "int \<Rightarrow> string" where
  "int_str i = (if i < 0 then CHR ''-'' # dec (nat (- i)) else dec (nat i))"

fun exc_str :: "pyexc \<Rightarrow> string" where
  "exc_str (PyException _ msg) = msg"
| "exc_str KeyboardInterrupt = []"
| "exc_str (SystemExit c) = int_str c"

section \<open>Logging levels and records\<close>

datatype level = DEBUG | INFO | WARNING | ERROR | CRITICAL

fun levelno :: "level \<Rightarrow> nat" where
  "levelno DEBUG = 10"
| "levelno INFO = 20"
| "levelno WARNING = 30"
| "levelno ERROR = 40"
| "levelno CRITICAL = 50"

fun levelname :: "level \<Rightarrow> string" where
  "levelname DEBUG = ''DEBUG''"
| "levelname INFO = ''INFO''"
| "levelname WARNING = ''WARNING''"
| "levelname ERROR = ''ERROR''"
| "levelname CRITICAL = ''CRITICAL''"

text \<open>Levels are compared by their numbers, as \<open>Logger.isEnabledFor\<close> does.\<close>

instantiation level :: linorder
begin

definition less_eq_level :: "level \<Rightarrow> level \<Rightarrow> bool" where
  "less_eq_level a b \<longleftrightarrow> levelno a \<le> levelno b"

definition less_level :: "level \<Rightarrow> level \<Rightarrow> bool" where
  "less_level a b \<longleftrightarrow> levelno a < levelno b"

instance
proof
  fix a b c :: level
  show "a < b \<longleftrightarrow> a \<le> b \<and> \<not> b \<le> a"
    by (auto simp: less_eq_level_def less_level_def)
  show "a \<le> a" by (simp add: less_eq_level_def)
  show "a \<le> b \<Longrightarrow> b \<le> c \<Longrightarrow> a \<le> c" by (simp add: less_eq_level_def)
  show "a \<le> b \<Longrightarrow> b \<le> a \<Longrightarrow> a = b"
    by (cases a; cases b) (simp_all add: less_eq_level_def)
  show "a \<le> b \<or> b \<le> a" by (auto simp: less_eq_level_def)
qed

end

record log_record =
  rec_level :: level
  rec_msg :: string

section \<open>Lemmas\<close>

lemma level_order [simp]:
  "DEBUG < INFO" "INFO < WARNING" "WARNING < ERROR" "ERROR < CRITICAL"
  by (simp_all add: less_level_def)

lemma level_le_iff: "a \<le> b \<longleftrightarrow> levelno a \<le> levelno b"
  by (simp add: less_eq_level_def)

lemma dict_get_distinct:
  assumes "distinct (map fst d)"
  shows "dict_get d k = map_of d k"
proof (cases "map_of d k")
  case None
  then have "map_of (rev d) k = None" by (simp add: map_of_eq_None_iff)
  with None show ?thesis by (simp add: dict_get_def)
next
  case (Some v)
  then have "(k, v) \<in> set (rev d)" by (simp add: map_of_SomeD)
  moreover from assms have "distinct (map fst (rev d))" by (simp add: rev_map [symmetric])
  ultimately show ?thesis using Some by (simp add: dict_get_def map_of_is_SomeI)
qed

end
