(* ===== verification/Datetime.thy ===== *)
theory Datetime
  imports Prelude
begin

text \<open>
  The part of Python's \<open>datetime\<close> the script relies on: a naive local
  \<open>datetime\<close> value as \<open>datetime.now()\<close> returns it (the clock reading is an input
  of the model), the range checks of its constructor, and \<open>strftime\<close> for the
  directives the script's format string uses. Used by \<open>generate_output_filename\<close>
  (src/cdsAPI.py, lines 23--25) and by the calendar checks of the request.
\<close>

section \<open>Datetime values\<close>

text \<open>The fields of a naive \<open>datetime\<close>. \<open>dt_fold\<close> is PEP 495's \<open>fold\<close>
  attribute: it tells apart the two wall-clock readings of the repeated hour when
  daylight saving time ends (\<open>datetime.now()\<close> sets it).\<close>

record datetime =
  year :: nat
  month :: nat
  day :: nat
  hour :: nat
  minute :: nat
  second :: nat
  microsecond :: nat
  dt_fold :: bool

definition MINYEAR :: nat where "MINYEAR = 1"
definition MAXYEAR :: nat where "MAXYEAR = 9999"

definition is_leap :: "nat \<Rightarrow> bool" where
  "is_leap y \<longleftrightarrow> y mod 4 = 0 \<and> (y mod 100 \<noteq> 0 \<or> y mod 400 = 0)"

text \<open>CPython's \<open>_days_in_month\<close>: a table indexed by month, February adjusted in
  leap years. Only called with \<open>1 \<le> m \<le> 12\<close>.\<close>

definition days_in_month :: "nat \<Rightarrow> nat \<Rightarrow> nat" where
  "days_in_month y m =
     (if m = 2 \<and> is_leap y then 29
      else [31, 28, 31, 30, 31, 30, 31, 31, 30, 31, 30, 31] ! (m - 1))"

definition valid_date :: "nat \<Rightarrow> nat \<Rightarrow> nat \<Rightarrow> bool" where
  "valid_date y m d \<longleftrightarrow>
     MINYEAR \<le> y \<and> y \<le> MAXYEAR \<and> 1 \<le> m \<and> m \<le> 12 \<and> 1 \<le> d \<and> d \<le> days_in_month y m"

text \<open>The invariant of every \<open>datetime\<close> value: what \<open>_check_date_fields\<close> and
  \<open>_check_time_fields\<close> enforce when one is built.\<close>

definition valid_datetime :: "datetime \<Rightarrow> bool" where
  "valid_datetime dt \<longleftrightarrow>
     valid_date (year dt) (month dt) (day dt) \<and> hour dt < 24 \<and> minute dt < 60 \<and>
     second dt < 60 \<and> microsecond dt < 1000000"

text \<open>A \<open>datetime\<close> seen at one-second resolution: what survives a format that has
  no sub-second directive.\<close>

definition to_second :: "datetime \<Rightarrow> datetime" where
  "to_second dt = dt\<lparr>microsecond := 0, dt_fold := False\<rparr>"

section \<open>strftime\<close>

text \<open>One conversion directive. \<open>%Y\<close> is the year zero-padded to four digits (as
  Python documents it for all of \<open>MINYEAR..MAXYEAR\<close>), \<open>%m %d %H %M %S\<close> are
  zero-padded to two, \<open>%%\<close> is a percent sign. Other directives do not occur in the
  script and are copied unchanged.\<close>

definition directive :: "char \<Rightarrow> datetime \<Rightarrow> string" where
  "directive c dt =
     (if c = CHR ''Y'' then zpad 4 (year dt)
      else if c = CHR ''m'' then zpad 2 (month dt)
      else if c = CHR ''d'' then zpad 2 (day dt)
      else if c = CHR ''H'' then zpad 2 (hour dt)
      else if c = CHR ''M'' then zpad 2 (minute dt)
      else if c = CHR ''S'' then zpad 2 (second dt)
      else if c = CHR ''%'' then ''%''
      else [CHR ''%'', c])"

fun strftime :: "string \<Rightarrow> datetime \<Rightarrow> string" where
  "strftime [] dt = []"
| "strftime (c # fmt) dt =
     (if c = CHR ''%'' then
        (case fmt of
           [] \<Rightarrow> ''%''
         | d # fmt' \<Rightarrow> directive d dt @ strftime fmt' dt)
      else c # strftime fmt dt)"

section \<open>Lemmas\<close>

lemmas valid_datetime_unfold =
  valid_datetime_def valid_date_def days_in_month_def is_leap_def MINYEAR_def MAXYEAR_def

lemma days_in_month_le: "1 \<le> m \<Longrightarrow> m \<le> 12 \<Longrightarrow> days_in_month y m \<le> 31"
proof -
  let ?t = "[31, 28, 31, 30, 31, 30, 31, 31, 30, 31, 30, 31 :: nat]"
  assume "1 \<le> m" "m \<le> 12"
  then have "?t ! (m - 1) \<in> set ?t" by (intro nth_mem) simp
  then show ?thesis by (auto simp: days_in_month_def)
qed

lemma valid_date_bounds:
  assumes "valid_date y m d"
  shows "y < 10 ^ 4" "m < 10 ^ 2" "d < 10 ^ 2"
proof -
  from assms have "1 \<le> m" "m \<le> 12" "y \<le> 9999" "d \<le> days_in_month y m"
    by (simp_all add: valid_date_def MAXYEAR_def)
  moreover from this have "d \<le> 31" using days_in_month_le [of m y] by linarith
  ultimately show "y < 10 ^ 4" "m < 10 ^ 2" "d < 10 ^ 2" by simp_all
qed

lemma valid_datetime_bounds:
  assumes "valid_datetime dt"
  shows "year dt < 10 ^ 4" "month dt < 10 ^ 2" "day dt < 10 ^ 2"
    "hour dt < 10 ^ 2" "minute dt < 10 ^ 2" "second dt < 10 ^ 2"
  using assms valid_date_bounds [of "year dt" "month dt" "day dt"]
  by (simp_all add: valid_datetime_def)

lemma valid_to_second: "valid_datetime dt \<Longrightarrow> valid_datetime (to_second dt)"
  by (simp add: valid_datetime_def to_second_def)

lemma to_second_idem [simp]: "to_second (to_second dt) = to_second dt"
  by (simp add: to_second_def)

text \<open>The format string of line 24, evaluated directive by directive.\<close>

lemma strftime_timestamp:
  "strftime ''%Y%m%d_%H%M%S'' dt =
     zpad 4 (year dt) @ zpad 2 (month dt) @ zpad 2 (day dt) @ ''_'' @
     zpad 2 (hour dt) @ zpad 2 (minute dt) @ zpad 2 (second dt)"
  by (simp add: directive_def)

end
