(* ===== verification/World.thy ===== *)
theory World
  imports PyRuntime Datetime
begin

text \<open>
  The state the script reads and changes, and the module-level code that runs when it is
  imported (src/cdsAPI.py, lines 9--20): \<open>load_dotenv()\<close>, the construction of the
  \<open>cdsapi.Client\<close> from two environment variables, and \<open>logging.basicConfig\<close>.
  Also the module-level \<open>logging.info\<close>/\<open>logging.error\<close>, through which every
  handler of the script reports, and \<open>datetime.now()\<close> as a read of the clock. Strings are sequences of code points; every character
  the script writes is below 256, so one \<open>char\<close> holds one code point.
\<close>

section \<open>The world\<close>

text \<open>
  \<^item> \<open>environ\<close>: \<open>os.environ\<close>;
  \<^item> \<open>dotenv_file\<close>: the entries of the \<open>.env\<close> file \<open>load_dotenv\<close> finds, in file
    order, a key without \<open>=\<close> having no value; \<open>None\<close> when there is no file;
  \<^item> \<open>files\<close>: the local file system, path to contents;
  \<^item> \<open>log_level\<close>, \<open>log_handler\<close>: the root logger's level and the format of its
    handler (\<open>None\<close>: no handler yet);
  \<^item> \<open>log\<close>: the records the root logger has emitted, in order;
  \<^item> \<open>clock\<close>, \<open>now_calls\<close>: the readings successive calls of
    \<open>datetime.now()\<close> return (\<open>clock n\<close> is the reading of the call after \<open>n\<close>
    earlier ones; theory \<open>Clock\<close> computes such readings from the system clock) and
    the number of calls made so far.
\<close>

record world =
  environ :: "string \<rightharpoonup> string"
  dotenv_file :: "(string \<times> string option) list option"
  files :: "path \<rightharpoonup> bytes"
  log_level :: level
  log_handler :: "string option"
  log :: "log_record list"
  clock :: "nat \<Rightarrow> datetime"
  now_calls :: nat

text \<open>A fresh interpreter: the root logger at \<open>WARNING\<close> with no handler, no call
  of \<open>datetime.now()\<close> yet.\<close>

definition fresh_world ::
  "(string \<rightharpoonup> string) \<Rightarrow> (string \<times> string option) list option \<Rightarrow> (path \<rightharpoonup> bytes) \<Rightarrow>
   (nat \<Rightarrow> datetime) \<Rightarrow> world" where
  "fresh_world env dot fs clk =
     \<lparr>environ = env, dotenv_file = dot, files = fs, log_level = WARNING, log_handler = None,
      log = [], clock = clk, now_calls = 0\<rparr>"

text \<open>\<open>datetime.now()\<close>: the next reading of the clock.\<close>

definition read_clock :: "world \<Rightarrow> datetime \<times> world" where
  "read_clock w = (clock w (now_calls w), w\<lparr>now_calls := Suc (now_calls w)\<rparr>)"

section \<open>load_dotenv (line 10)\<close>

text \<open>python-dotenv reads the file into an ordered dictionary (a repeated key keeps its
  last value and its first position), then, with the default \<open>override=False\<close>, sets
  each key that is not already in the environment and has a value.\<close>

definition dotenv_dict :: "(string \<times> string option) list \<Rightarrow> (string \<times> string option) list" where
  "dotenv_dict es = map (\<lambda>k. (k, the (map_of (rev es) k))) (remdups (map fst es))"

definition dotenv_set :: "string \<times> string option \<Rightarrow> (string \<rightharpoonup> string) \<Rightarrow> (string \<rightharpoonup> string)" where
  "dotenv_set kv env =
     (case kv of (k, v) \<Rightarrow>
        if env k \<noteq> None then env
        else (case v of None \<Rightarrow> env | Some x \<Rightarrow> env(k \<mapsto> x)))"

definition load_dotenv :: "world \<Rightarrow> world" where
  "load_dotenv w =
     (case dotenv_file w of
        None \<Rightarrow> w
      | Some es \<Rightarrow> w\<lparr>environ := fold dotenv_set (dotenv_dict es) (environ w)\<rparr>)"

section \<open>The client (lines 11--14)\<close>

text \<open>\<open>cdsapi.Client(url=os.getenv("CDSAPI_URL"), key=os.getenv("CDSAPI_KEY"))\<close>: the
  configuration the script hands to the library; \<open>None\<close> where the variable is unset.\<close>

record client_cfg =
  cfg_url :: "string option"
  cfg_key :: "string option"

definition getenv :: "string \<Rightarrow> world \<Rightarrow> string option" where
  "getenv k w = environ w k"

definition client_config :: "world \<Rightarrow> client_cfg" where
  "client_config w = \<lparr>cfg_url = getenv ''CDSAPI_URL'' w, cfg_key = getenv ''CDSAPI_KEY'' w\<rparr>"

section \<open>Logging (lines 16--20)\<close>

definition log_format :: string where
  "log_format = ''%(asctime)s - %(levelname)s - %(message)s''"

text \<open>\<open>logging.BASIC_FORMAT\<close>, the format of a \<open>basicConfig()\<close> without arguments.\<close>

definition BASIC_FORMAT :: string where
  "BASIC_FORMAT = ''%(levelname)s:%(name)s:%(message)s''"

text \<open>\<open>basicConfig(level=..., format=...)\<close> does nothing when the root logger
  already has a handler; otherwise it installs a stream handler with the format and sets
  the level if one is given.\<close>

definition basicConfig :: "level option \<Rightarrow> string \<Rightarrow> world \<Rightarrow> world" where
  "basicConfig lvl fmt w =
     (if log_handler w = None
      then w\<lparr>log_handler := Some fmt,
             log_level := (case lvl of None \<Rightarrow> log_level w | Some l \<Rightarrow> l)\<rparr>
      else w)"

text \<open>A module-level call \<open>logging.info(msg)\<close> or \<open>logging.error(msg)\<close>: when the
  root logger has no handler it first calls \<open>basicConfig()\<close>; then the record is
  emitted when its level passes the root logger's level.\<close>

definition log_emit :: "level \<Rightarrow> string \<Rightarrow> world \<Rightarrow> world" where
  "log_emit lvl msg w =
     (let w1 = (if log_handler w = None then basicConfig None BASIC_FORMAT w else w)
      in if log_level w1 \<le> lvl
         then w1\<lparr>log := log w1 @ [\<lparr>rec_level = lvl, rec_msg = msg\<rparr>]\<rparr>
         else w1)"

text \<open>The module body: \<open>load_dotenv()\<close>, the client from the environment, then
  \<open>logging.basicConfig(level=logging.INFO, format=...)\<close>. Constructing the client
  is the library's business (it may fall back to \<open>~/.cdsapirc\<close> or raise), so the
  constructor is a parameter; an exception there stops the import.\<close>

definition module_init :: "(client_cfg \<Rightarrow> pyexc + 'c) \<Rightarrow> world \<Rightarrow> (pyexc + 'c) \<times> world" where
  "module_init make_client w =
     (let w1 = load_dotenv w in
      case make_client (client_config w1) of
        Inl e \<Rightarrow> (Inl e, w1)
      | Inr c \<Rightarrow> (Inr c, basicConfig (Some INFO) log_format w1))"

text \<open>A fresh interpreter with an empty environment, no \<open>.env\<close> and no files, used by
  the witnesses.\<close>

definition sample_world :: world where
  "sample_world = fresh_world Map.empty None Map.empty
     (\<lambda>_. \<lparr>year = 2025, month = 1, day = 1, hour = 12, minute = 0, second = 0, microsecond = 0,
      dt_fold = False\<rparr>)"

section \<open>Lemmas\<close>

lemma fold_dotenv_set:
  "distinct (map fst ds) \<Longrightarrow>
   fold dotenv_set ds env k =
     (case env k of Some v \<Rightarrow> Some v
      | None \<Rightarrow> (case map_of ds k of Some (Some v) \<Rightarrow> Some v | _ \<Rightarrow> None))"
proof (induction ds arbitrary: env)
  case Nil
  then show ?case by (simp split: option.split)
next
  case (Cons kv ds)
  obtain k' v' where kv: "kv = (k', v')" by fastforce
  from Cons.prems kv have "k' \<notin> set (map fst ds)" and d: "distinct (map fst ds)" by auto
  then have "k' \<noteq> k \<or> map_of ds k = None" by (auto simp: map_of_eq_None_iff)
  with Cons.IH [OF d] kv show ?case
    by (auto simp: dotenv_set_def split: option.split)
qed

lemma map_of_map_key: "map_of (map (\<lambda>x. (x, g x)) xs) k = (if k \<in> set xs then Some (g k) else None)"
  by (induction xs) auto

lemma map_of_dotenv_dict: "map_of (dotenv_dict es) k = map_of (rev es) k"
proof -
  have "map_of (dotenv_dict es) k =
      (if k \<in> set (map fst es) then Some (the (map_of (rev es) k)) else None)"
    unfolding dotenv_dict_def by (simp only: map_of_map_key set_remdups)
  moreover have "k \<in> set (map fst es) \<longleftrightarrow> map_of (rev es) k \<noteq> None"
    by (simp add: map_of_eq_None_iff)
  ultimately show ?thesis by auto
qed

lemma distinct_dotenv_dict: "distinct (map fst (dotenv_dict es))"
  by (simp add: dotenv_dict_def comp_def)

lemma load_dotenv_frame [simp]:
  "files (load_dotenv w) = files w" "log (load_dotenv w) = log w" "clock (load_dotenv w) = clock w"
  "now_calls (load_dotenv w) = now_calls w"
  "log_level (load_dotenv w) = log_level w" "log_handler (load_dotenv w) = log_handler w"
  by (simp_all add: load_dotenv_def split: option.split)

section \<open>Properties of the module initialisation\<close>

text \<open>C13 (environment precedence): after \<open>load_dotenv()\<close> a variable that was set
  keeps its value; an unset one takes the value of its last entry in \<open>.env\<close>, if that
  entry has a value; otherwise it stays unset.\<close>

theorem load_dotenv_environ:
  "environ (load_dotenv w) k =
     (case environ w k of
        Some v \<Rightarrow> Some v
      | None \<Rightarrow>
          (case dotenv_file w of
             None \<Rightarrow> None
           | Some es \<Rightarrow> (case map_of (rev es) k of Some (Some v) \<Rightarrow> Some v | _ \<Rightarrow> None)))"
  by (auto simp: load_dotenv_def fold_dotenv_set [OF distinct_dotenv_dict] map_of_dotenv_dict
      split: option.split)

text \<open>C14 (logging is on before the workflow runs): when the module body completes
  in an interpreter whose root logger has no handler yet, the root logger is at
  \<open>INFO\<close> with the script's format, nothing was logged, and both \<open>logging.info\<close>
  and \<open>logging.error\<close> records are emitted from then on.\<close>

theorem module_init_logging:
  assumes "module_init make_client w = (Inr c, w')" and "log_handler w = None"
  shows "log_level w' = INFO \<and> log_handler w' = Some log_format \<and> log w' = log w \<and>
     log (log_emit INFO m w') = log w' @ [\<lparr>rec_level = INFO, rec_msg = m\<rparr>] \<and>
     log (log_emit ERROR m w') = log w' @ [\<lparr>rec_level = ERROR, rec_msg = m\<rparr>]"
proof -
  from assms(1) have "w' = basicConfig (Some INFO) log_format (load_dotenv w)"
    by (auto simp: module_init_def Let_def split: sum.splits)
  with assms(2) show ?thesis
    by (simp add: basicConfig_def log_emit_def less_eq_level_def)
qed

section \<open>Witnesses\<close>

theorem module_init_logging_witness:
  "module_init (\<lambda>cfg. Inr ()) sample_world =
     (Inr (), basicConfig (Some INFO) log_format sample_world) \<and>
   log_handler sample_world = None \<and>
   log (log_emit INFO ''x'' (basicConfig (Some INFO) log_format sample_world)) =
     [\<lparr>rec_level = INFO, rec_msg = ''x''\<rparr>]"
proof -
  have h1: "module_init (\<lambda>cfg. Inr ()) sample_world =
     (Inr (), basicConfig (Some INFO) log_format sample_world)"
    by (simp add: sample_world_def module_init_def load_dotenv_def fresh_world_def)
  have h2: "log_handler sample_world = None"
    by (simp add: sample_world_def fresh_world_def)
  show ?thesis
    using h1 h2 module_init_logging [where m = "''x''", OF h1 h2] by (simp add: sample_world_def fresh_world_def basicConfig_def)
qed

end
