(* ===== verification/Filename.thy ===== *)
theory Filename
  imports Datetime
begin

text \<open>
  \<open>generate_output_filename\<close> (src/cdsAPI.py, lines 23--25) and a parser that
  inverts it. The parser is not part of the script; it is the specification device for
  the claims that the output name has the shape \<open><prefix>_<YYYYMMDD_HHMMSS>.nc\<close>,
  that the prefix and the clock reading (to the second) can be read back from it, and
  hence exactly which pairs of clock readings give the same file name.
\<close>

section \<open>The operation\<close>

text \<open>\<open>timestamp = datetime.now().strftime("%Y%m%d_%H%M%S")\<close>;
  \<open>return f"{prefix}_{timestamp}.nc"\<close>. The clock reading \<open>now\<close> is an argument.\<close>

definition generate_output_filename :: "string \<Rightarrow> datetime \<Rightarrow> path" where
  "generate_output_filename prefix now =
     (let timestamp = strftime ''%Y%m%d_%H%M%S'' now
      in prefix @ ''_'' @ timestamp @ ''.nc'')"

section \<open>Reading a name back\<close>

text \<open>A timestamp is fifteen characters: six fixed-width digit fields and an
  underscore. The result is the \<open>datetime\<close> at one-second resolution, if it is one.\<close>

fun parse_timestamp :: "string \<Rightarrow> datetime option" where
  "parse_timestamp [y1, y2, y3, y4, m1, m2, d1, d2, u, h1, h2, i1, i2, s1, s2] =
     (if u \<noteq> CHR ''_'' then None
      else (case (parse_nat [y1, y2, y3, y4], parse_nat [m1, m2], parse_nat [d1, d2],
                  parse_nat [h1, h2], parse_nat [i1, i2], parse_nat [s1, s2]) of
              (Some y, Some mo, Some d, Some h, Some mi, Some s) \<Rightarrow>
                (let dt = \<lparr>year = y, month = mo, day = d, hour = h, minute = mi, second = s,
                           microsecond = 0, dt_fold = False\<rparr>
                 in if valid_datetime dt then Some dt else None)
            | _ \<Rightarrow> None))"
| "parse_timestamp _ = None"

text \<open>The name is split from the right: the last three characters are the extension,
  the fifteen before them the timestamp, the one before that the separator; the rest is
  the prefix, which may itself contain underscores.\<close>

definition parse_output_filename :: "path \<Rightarrow> (string \<times> datetime) option" where
  "parse_output_filename name =
     (let n = length name in
      if 19 \<le> n \<and> drop (n - 3) name = ''.nc'' \<and> name ! (n - 19) = CHR ''_''
      then map_option (\<lambda>dt. (take (n - 19) name, dt))
             (parse_timestamp (take 15 (drop (n - 18) name)))
      else None)"

text \<open>The clock reading of the spec's end-to-end scenario (12:00:00 on
  1 January 2025), used by the witnesses.\<close>

definition spec_clock :: datetime where
  "spec_clock = \<lparr>year = 2025, month = 1, day = 1, hour = 12, minute = 0, second = 0,
                  microsecond = 0, dt_fold = False\<rparr>"

section \<open>Lemmas\<close>

lemma spec_clock_valid: "valid_datetime spec_clock"
  by (simp add: spec_clock_def valid_datetime_unfold)

lemma spec_clock_filename:
  "generate_output_filename ''extract'' spec_clock = ''extract_20250101_120000.nc''"
  by (simp add: spec_clock_def generate_output_filename_def directive_def zpad_def dec.simps
      digit_chr_table)

lemma length_2_conv: "length xs = 2 \<longleftrightarrow> (\<exists>a b. xs = [a, b])"
  by (auto simp add: numeral_eq_Suc length_Suc_conv)

lemma length_4_conv: "length xs = 4 \<longleftrightarrow> (\<exists>a b c d. xs = [a, b, c, d])"
  by (auto simp add: numeral_eq_Suc length_Suc_conv)

lemma generate_output_filename_eq:
  "generate_output_filename prefix now =
     prefix @ ''_'' @ strftime ''%Y%m%d_%H%M%S'' now @ ''.nc''"
  by (simp add: generate_output_filename_def)

lemma timestamp_length:
  "valid_datetime dt \<Longrightarrow> length (strftime ''%Y%m%d_%H%M%S'' dt) = 15"
  unfolding strftime_timestamp using valid_datetime_bounds [of dt] by (simp add: length_zpad)

lemma parse_output_filename_split:
  assumes "length ts = 15"
  shows "parse_output_filename (prefix @ ''_'' @ ts @ ''.nc'') =
           map_option (\<lambda>dt. (prefix, dt)) (parse_timestamp ts)"
  using assms by (simp add: parse_output_filename_def Let_def nth_append)

text \<open>The timestamp fields, written with \<open>%0wd\<close>, are read back by the parser.\<close>

lemma parse_timestamp_zpad:
  assumes "y < 10 ^ 4" "mo < 10 ^ 2" "d < 10 ^ 2" "h < 10 ^ 2" "mi < 10 ^ 2" "s < 10 ^ 2"
  shows "parse_timestamp (zpad 4 y @ zpad 2 mo @ zpad 2 d @ CHR ''_'' # zpad 2 h @ zpad 2 mi @ zpad 2 s) =
   (let dt = \<lparr>year = y, month = mo, day = d, hour = h, minute = mi, second = s,
              microsecond = 0, dt_fold = False\<rparr>
    in if valid_datetime dt then Some dt else None)"
proof -
  from assms have "length (zpad 4 y) = 4" "length (zpad 2 mo) = 2" "length (zpad 2 d) = 2"
    "length (zpad 2 h) = 2" "length (zpad 2 mi) = 2" "length (zpad 2 s) = 2"
    by (simp_all add: length_zpad)
  then obtain y1 y2 y3 y4 m1 m2 d1 d2 h1 h2 i1 i2 s1 s2 where
    z: "zpad 4 y = [y1, y2, y3, y4]" "zpad 2 mo = [m1, m2]" "zpad 2 d = [d1, d2]"
       "zpad 2 h = [h1, h2]" "zpad 2 mi = [i1, i2]" "zpad 2 s = [s1, s2]"
    unfolding length_2_conv length_4_conv by metis
  have p: "parse_nat [y1, y2, y3, y4] = Some y" "parse_nat [m1, m2] = Some mo"
    "parse_nat [d1, d2] = Some d" "parse_nat [h1, h2] = Some h"
    "parse_nat [i1, i2] = Some mi" "parse_nat [s1, s2] = Some s"
    by (simp_all only: z [symmetric] parse_nat_zpad)
  show ?thesis by (simp add: z p Let_def)
qed

lemma parse_timestamp_SomeD:
  assumes "parse_timestamp ts = Some dt"
  shows "valid_datetime dt \<and> to_second dt = dt \<and> strftime ''%Y%m%d_%H%M%S'' dt = ts"
proof -
  from assms obtain y1 y2 y3 y4 m1 m2 d1 d2 h1 h2 i1 i2 s1 s2 where
    ts: "ts = [y1, y2, y3, y4, m1, m2, d1, d2, CHR ''_'', h1, h2, i1, i2, s1, s2]"
    by (cases ts rule: parse_timestamp.cases) (auto split: if_splits)
  from assms ts obtain y mo d h mi s where
    p: "parse_nat [y1, y2, y3, y4] = Some y" "parse_nat [m1, m2] = Some mo"
    "parse_nat [d1, d2] = Some d" "parse_nat [h1, h2] = Some h"
    "parse_nat [i1, i2] = Some mi" "parse_nat [s1, s2] = Some s" and
    dt: "dt = \<lparr>year = y, month = mo, day = d, hour = h, minute = mi, second = s,
               microsecond = 0, dt_fold = False\<rparr>" and v: "valid_datetime dt"
    by (auto simp: Let_def split: option.splits if_splits)
  from parse_nat_zpad_eq [OF p(1)] parse_nat_zpad_eq [OF p(2)] parse_nat_zpad_eq [OF p(3)]
    parse_nat_zpad_eq [OF p(4)] parse_nat_zpad_eq [OF p(5)] parse_nat_zpad_eq [OF p(6)]
  have "zpad 4 y = [y1, y2, y3, y4]" "zpad 2 mo = [m1, m2]" "zpad 2 d = [d1, d2]"
    "zpad 2 h = [h1, h2]" "zpad 2 mi = [i1, i2]" "zpad 2 s = [s1, s2]"
    by (simp_all add: numeral_eq_Suc)
  with dt v ts show ?thesis unfolding strftime_timestamp by (simp add: to_second_def)
qed

lemma parse_generate_output_filename:
  assumes "valid_datetime now"
  shows "parse_output_filename (generate_output_filename prefix now) = Some (prefix, to_second now)"
proof -
  have "parse_timestamp (strftime ''%Y%m%d_%H%M%S'' now) = Some (to_second now)"
    unfolding strftime_timestamp using valid_datetime_bounds [OF assms] assms
    by (simp add: parse_timestamp_zpad to_second_def valid_datetime_def)
  moreover have "length (strftime ''%Y%m%d_%H%M%S'' now) = 15"
    using assms by (rule timestamp_length)
  ultimately show ?thesis
    unfolding generate_output_filename_eq by (simp only: parse_output_filename_split option.map)
qed

lemma split_name_suffix:
  assumes "19 \<le> length xs"
  shows "xs = take (length xs - 19) xs @ [xs ! (length xs - 19)] @
      take 15 (drop (length xs - 18) xs) @ drop (length xs - 3) xs"
proof -
  let ?n = "length xs"
  from assms have "drop (?n - 19) xs = xs ! (?n - 19) # drop (Suc (?n - 19)) xs"
    by (simp add: Cons_nth_drop_Suc)
  moreover from assms have "Suc (?n - 19) = ?n - 18" by simp
  moreover from assms have e: "?n - 3 = 15 + (?n - 18)" by simp
  then have "drop (?n - 18) xs = take 15 (drop (?n - 18) xs) @ drop (?n - 3) xs"
    by (simp only: e drop_drop [symmetric] append_take_drop_id)
  ultimately show ?thesis by (metis append_Cons append_Nil append_take_drop_id)
qed

lemma generate_output_filename_to_second:
  "generate_output_filename p (to_second a) = generate_output_filename p a"
  unfolding generate_output_filename_eq strftime_timestamp by (simp add: to_second_def)

lemma parse_output_filename_SomeD:
  assumes "parse_output_filename name = Some (prefix, dt)"
  shows "valid_datetime dt \<and> to_second dt = dt \<and> generate_output_filename prefix dt = name"
proof -
  let ?n = "length name"
  from assms have c: "19 \<le> ?n" "drop (?n - 3) name = ''.nc''" "name ! (?n - 19) = CHR ''_''"
    and pre: "take (?n - 19) name = prefix"
    and ts: "parse_timestamp (take 15 (drop (?n - 18) name)) = Some dt"
    by (auto simp: parse_output_filename_def Let_def split: if_splits)
  from ts have d: "valid_datetime dt \<and> to_second dt = dt \<and>
      strftime ''%Y%m%d_%H%M%S'' dt = take 15 (drop (?n - 18) name)"
    by (rule parse_timestamp_SomeD)
  from c(1) have "name = take (?n - 19) name @ [name ! (?n - 19)] @
      take 15 (drop (?n - 18) name) @ drop (?n - 3) name"
    by (rule split_name_suffix)
  with c pre d show ?thesis by (simp add: generate_output_filename_eq)
qed

section \<open>Properties of the output name\<close>

text \<open>C8 (shape of the output name): for every valid clock reading the name is the
  prefix, an underscore, a fifteen-character timestamp of eight digits, an underscore
  and six digits, and the extension \<open>.nc\<close>: the pattern
  \<open><prefix>_<14-digit timestamp>.nc\<close> of the spec.\<close>

theorem output_filename_pattern:
  assumes "valid_datetime now"
  shows "\<exists>ts. generate_output_filename prefix now = prefix @ ''_'' @ ts @ ''.nc'' \<and>
     length ts = 15 \<and> list_all is_digit (take 8 ts) \<and> ts ! 8 = CHR ''_'' \<and>
     list_all is_digit (drop 9 ts)"
proof -
  let ?ts = "strftime ''%Y%m%d_%H%M%S'' now"
  have l: "length (zpad 4 (year now)) = 4" "length (zpad 2 (month now)) = 2"
    "length (zpad 2 (day now)) = 2" "length (zpad 2 (hour now)) = 2"
    "length (zpad 2 (minute now)) = 2" "length (zpad 2 (second now)) = 2"
    using valid_datetime_bounds [OF assms] by (simp_all add: length_zpad)
  have "length ?ts = 15 \<and> list_all is_digit (take 8 ?ts) \<and> ?ts ! 8 = CHR ''_'' \<and>
     list_all is_digit (drop 9 ?ts)"
    unfolding strftime_timestamp by (simp add: l nth_append zpad_digits)
  then show ?thesis by (auto simp: generate_output_filename_eq)
qed

text \<open>C9 (round trip): the prefix and the clock reading, to the second, are read
  back from the name.\<close>

theorem output_filename_roundtrip:
  assumes "valid_datetime now"
  shows "parse_output_filename (generate_output_filename prefix now) = Some (prefix, to_second now)"
  using assms by (rule parse_generate_output_filename)

text \<open>C10 (uniqueness per second): two names are equal exactly when the prefixes are
  equal and the clock readings agree to the second. Readings in the same second
  (different microseconds), and the two readings of the repeated hour at the end of
  daylight saving time (same fields, different \<open>fold\<close>), give the same name.\<close>

theorem output_filename_unique:
  assumes "valid_datetime a" "valid_datetime b"
  shows "generate_output_filename p a = generate_output_filename q b \<longleftrightarrow>
         p = q \<and> to_second a = to_second b"
proof
  assume "generate_output_filename p a = generate_output_filename q b"
  then have "parse_output_filename (generate_output_filename p a) =
             parse_output_filename (generate_output_filename q b)" by simp
  with assms show "p = q \<and> to_second a = to_second b"
    by (simp add: parse_generate_output_filename)
next
  assume "p = q \<and> to_second a = to_second b"
  then show "generate_output_filename p a = generate_output_filename q b"
    by (metis generate_output_filename_to_second)
qed

text \<open>C12 (the parser accepts only generated names): a name the parser accepts is
  the name generated from the prefix and the valid \<open>datetime\<close> it returns.\<close>

theorem output_filename_parse_sound:
  assumes "parse_output_filename name = Some (prefix, dt)"
  shows "valid_datetime dt \<and> generate_output_filename prefix dt = name"
  using parse_output_filename_SomeD [OF assms] by simp

section \<open>Witnesses\<close>

theorem output_filename_pattern_witness:
  "valid_datetime spec_clock \<and>
   (\<exists>ts. generate_output_filename ''extract'' spec_clock = ''extract'' @ ''_'' @ ts @ ''.nc'' \<and>
     length ts = 15 \<and> list_all is_digit (take 8 ts) \<and> ts ! 8 = CHR ''_'' \<and>
     list_all is_digit (drop 9 ts))"
  using spec_clock_valid output_filename_pattern [OF spec_clock_valid, of "''extract''"] by blast

theorem output_filename_roundtrip_witness:
  "valid_datetime spec_clock \<and>
   parse_output_filename ''extract_20250101_120000.nc'' = Some (''extract'', to_second spec_clock)"
  using spec_clock_valid output_filename_roundtrip [OF spec_clock_valid, of "''extract''"]
  by (simp add: spec_clock_filename)

text \<open>Two runs half a second apart, the second one in the repeated hour: both readings
  are valid, they differ, and the name is the same.\<close>

theorem output_filename_unique_witness:
  "valid_datetime spec_clock \<and>
   valid_datetime (spec_clock\<lparr>microsecond := 500000, dt_fold := True\<rparr>) \<and>
   spec_clock \<noteq> spec_clock\<lparr>microsecond := 500000, dt_fold := True\<rparr> \<and>
   generate_output_filename ''extract'' spec_clock =
     generate_output_filename ''extract'' (spec_clock\<lparr>microsecond := 500000, dt_fold := True\<rparr>)"
proof -
  have a: "valid_datetime spec_clock" by (rule spec_clock_valid)
  have b: "valid_datetime (spec_clock\<lparr>microsecond := 500000, dt_fold := True\<rparr>)"
    by (simp add: spec_clock_def valid_datetime_unfold)
  have "to_second spec_clock = to_second (spec_clock\<lparr>microsecond := 500000, dt_fold := True\<rparr>)"
    by (simp add: to_second_def)
  with output_filename_unique [OF a b, of "''extract''" "''extract''"] a b show ?thesis
    by (simp add: spec_clock_def)
qed

theorem output_filename_parse_sound_witness:
  "parse_output_filename ''extract_20250101_120000.nc'' = Some (''extract'', spec_clock) \<and>
   valid_datetime spec_clock \<and>
   generate_output_filename ''extract'' spec_clock = ''extract_20250101_120000.nc''"
proof -
  have p: "parse_output_filename ''extract_20250101_120000.nc'' = Some (''extract'', spec_clock)"
    by (simp add: spec_clock_def parse_output_filename_def parse_nat_def read_digits_def
        is_digit_def digit_val_def valid_datetime_unfold)
  with output_filename_parse_sound [OF p] show ?thesis by simp
qed

end
