(* ===== verification/Request.thy ===== *)
theory Request
  imports PyRuntime Datetime "HOL-Library.Monad_Syntax"
begin

text \<open>
  The request builder \<open>get_request_params\<close> (src/cdsAPI.py, lines 28--51): the
  literal dictionary it returns, and, as its abstract specification, the typed request of
  the spec (\<open>RequestSpec\<close>: product type, year, month, days, hours, data and download
  format, variables, bounding area) with the encoding into the dictionary the service
  receives and a decoder back. The builder refines the specification
  (\<open>get_request_params = encode_request era5_spec\<close>), the encoding round-trips on
  well-formed requests; the lemmas combine these to show that the dictionary the
  script sends decodes to a well-formed request.
\<close>

section \<open>The builder\<close>

definition get_request_params :: pydict where
  "get_request_params =
     [(''product_type'', PyList [PyStr ''reanalysis'']),
      (''year'', PyList [PyStr ''2002'']),
      (''month'', PyList [PyStr ''03'']),
      (''day'', PyList [PyStr ''11'', PyStr ''12'', PyStr ''13'', PyStr ''14'', PyStr ''15'']),
      (''time'', PyList
         [PyStr ''00:00'', PyStr ''01:00'', PyStr ''02:00'', PyStr ''03:00'', PyStr ''04:00'', PyStr ''05:00'',
          PyStr ''06:00'', PyStr ''07:00'', PyStr ''08:00'', PyStr ''09:00'', PyStr ''10:00'', PyStr ''11:00'',
          PyStr ''12:00'', PyStr ''13:00'', PyStr ''14:00'', PyStr ''15:00'', PyStr ''16:00'', PyStr ''17:00'',
          PyStr ''18:00'', PyStr ''19:00'', PyStr ''20:00'', PyStr ''21:00'', PyStr ''22:00'', PyStr ''23:00'']),
      (''data_format'', PyStr ''netcdf''),
      (''download_format'', PyStr ''unarchived''),
      (''variable'', PyList
         [PyStr ''soil_temperature_level_1'',
          PyStr ''soil_temperature_level_2'',
          PyStr ''lake_bottom_temperature'']),
      (''area'', PyList [PyInt (-19), PyInt (-48), PyInt (-23), PyInt (-43)])]"

section \<open>The typed request\<close>

text \<open>Years, months and days are numbers, the times are hours of the day, and the area
  is the bounding box \<open>(north, west, south, east)\<close> in degrees.\<close>

record era5_request =
  rq_product_type :: "string list"
  rq_year :: "nat list"
  rq_month :: "nat list"
  rq_day :: "nat list"
  rq_time :: "nat list"
  rq_data_format :: string
  rq_download_format :: string
  rq_variable :: "string list"
  rq_area :: "int \<times> int \<times> int \<times> int"

definition era5_spec :: era5_request where
  "era5_spec =
     \<lparr>rq_product_type = [''reanalysis''], rq_year = [2002], rq_month = [3],
      rq_day = [11..<16], rq_time = [0..<24], rq_data_format = ''netcdf'',
      rq_download_format = ''unarchived'',
      rq_variable = [''soil_temperature_level_1'', ''soil_temperature_level_2'',
                     ''lake_bottom_temperature''],
      rq_area = (-19, -48, -23, -43)\<rparr>"

text \<open>The wire form: numbers as zero-padded decimal strings, hours as \<open>HH:00\<close>, the
  area as a list of four integers.\<close>

definition hour_label :: "nat \<Rightarrow> string" where
  "hour_label h = zpad 2 h @ '':00''"

definition encode_request :: "era5_request \<Rightarrow> pydict" where
  "encode_request r =
     [(''product_type'', PyList (map PyStr (rq_product_type r))),
      (''year'', PyList (map (\<lambda>y. PyStr (zpad 4 y)) (rq_year r))),
      (''month'', PyList (map (\<lambda>m. PyStr (zpad 2 m)) (rq_month r))),
      (''day'', PyList (map (\<lambda>d. PyStr (zpad 2 d)) (rq_day r))),
      (''time'', PyList (map (\<lambda>h. PyStr (hour_label h)) (rq_time r))),
      (''data_format'', PyStr (rq_data_format r)),
      (''download_format'', PyStr (rq_download_format r)),
      (''variable'', PyList (map PyStr (rq_variable r))),
      (''area'', (case rq_area r of (n, w, s, e) \<Rightarrow> PyList [PyInt n, PyInt w, PyInt s, PyInt e]))]"

fun str_of :: "pyval \<Rightarrow> string option" where
  "str_of (PyStr s) = Some s"
| "str_of _ = None"

fun strs_of :: "pyval \<Rightarrow> string list option" where
  "strs_of (PyList vs) = those (map str_of vs)"
| "strs_of _ = None"

fun area_of :: "pyval \<Rightarrow> (int \<times> int \<times> int \<times> int) option" where
  "area_of (PyList [PyInt n, PyInt w, PyInt s, PyInt e]) = Some (n, w, s, e)"
| "area_of _ = None"

definition parse_field :: "nat \<Rightarrow> string \<Rightarrow> nat option" where
  "parse_field w s = (if length s = w then parse_nat s else None)"

definition parse_hour :: "string \<Rightarrow> nat option" where
  "parse_hour s = (if length s = 5 \<and> drop 2 s = '':00'' then parse_nat (take 2 s) else None)"

definition decode_request :: "pydict \<Rightarrow> era5_request option" where
  "decode_request d = do {
     pt \<leftarrow> dict_get d ''product_type'' \<bind> strs_of;
     ys \<leftarrow> dict_get d ''year'' \<bind> strs_of \<bind> (\<lambda>xs. those (map (parse_field 4) xs));
     ms \<leftarrow> dict_get d ''month'' \<bind> strs_of \<bind> (\<lambda>xs. those (map (parse_field 2) xs));
     ds \<leftarrow> dict_get d ''day'' \<bind> strs_of \<bind> (\<lambda>xs. those (map (parse_field 2) xs));
     hs \<leftarrow> dict_get d ''time'' \<bind> strs_of \<bind> (\<lambda>xs. those (map parse_hour xs));
     df \<leftarrow> dict_get d ''data_format'' \<bind> str_of;
     dl \<leftarrow> dict_get d ''download_format'' \<bind> str_of;
     vs \<leftarrow> dict_get d ''variable'' \<bind> strs_of;
     ar \<leftarrow> dict_get d ''area'' \<bind> area_of;
     Some \<lparr>rq_product_type = pt, rq_year = ys, rq_month = ms, rq_day = ds, rq_time = hs,
           rq_data_format = df, rq_download_format = dl, rq_variable = vs, rq_area = ar\<rparr>
   }"

text \<open>What makes a request meaningful to the archive: every combination of year, month
  and day is a calendar date, every time is an hour of the day, no list is empty or has
  repeats, and the area is a box with south not above north and west not east of east
  (CDS's \<open>[N, W, S, E]\<close> convention).\<close>

definition request_wf :: "era5_request \<Rightarrow> bool" where
  "request_wf r \<longleftrightarrow>
     rq_product_type r \<noteq> [] \<and> rq_variable r \<noteq> [] \<and>
     rq_year r \<noteq> [] \<and> rq_month r \<noteq> [] \<and> rq_day r \<noteq> [] \<and> rq_time r \<noteq> [] \<and>
     distinct (rq_year r) \<and> distinct (rq_month r) \<and> distinct (rq_day r) \<and>
     distinct (rq_time r) \<and> distinct (rq_variable r) \<and>
     list_all (\<lambda>y. list_all (\<lambda>m. list_all (\<lambda>d. valid_date y m d) (rq_day r)) (rq_month r))
       (rq_year r) \<and>
     list_all (\<lambda>h. h < 24) (rq_time r) \<and>
     (case rq_area r of (n, w, s, e) \<Rightarrow>
        -90 \<le> s \<and> s \<le> n \<and> n \<le> 90 \<and> -180 \<le> w \<and> w \<le> e \<and> e \<le> 180)"

section \<open>Lemmas\<close>

lemma get_request_params_eq: "get_request_params = encode_request era5_spec"
  by code_simp

lemma era5_spec_wf: "request_wf era5_spec"
  by (simp add: request_wf_def era5_spec_def valid_date_def days_in_month_def is_leap_def
      MINYEAR_def MAXYEAR_def upt_rec)

lemma request_wf_bounds:
  assumes "request_wf r"
  shows "list_all (\<lambda>y. y < 10 ^ 4) (rq_year r)" "list_all (\<lambda>m. m < 10 ^ 2) (rq_month r)"
    "list_all (\<lambda>d. d < 10 ^ 2) (rq_day r)" "list_all (\<lambda>h. h < 10 ^ 2) (rq_time r)"
proof -
  from assms have "rq_month r \<noteq> []" "rq_day r \<noteq> []" "rq_year r \<noteq> []"
    by (simp_all add: request_wf_def)
  then have mh: "hd (rq_month r) \<in> set (rq_month r)" and dh: "hd (rq_day r) \<in> set (rq_day r)"
      and yh: "hd (rq_year r) \<in> set (rq_year r)"
    by simp_all
  from assms have v: "\<And>y m d. y \<in> set (rq_year r) \<Longrightarrow> m \<in> set (rq_month r) \<Longrightarrow>
      d \<in> set (rq_day r) \<Longrightarrow> valid_date y m d"
    by (auto simp: request_wf_def list_all_iff)
  show "list_all (\<lambda>y. y < 10 ^ 4) (rq_year r)"
    unfolding list_all_iff using v [OF _ mh dh] valid_date_bounds(1) by blast
  show "list_all (\<lambda>m. m < 10 ^ 2) (rq_month r)"
    unfolding list_all_iff using v [OF yh _ dh] valid_date_bounds(2) by blast
  show "list_all (\<lambda>d. d < 10 ^ 2) (rq_day r)"
    unfolding list_all_iff using v [OF yh mh] valid_date_bounds(3) by blast
  from assms show "list_all (\<lambda>h. h < 10 ^ 2) (rq_time r)"
    by (auto simp: request_wf_def list_all_iff)
qed

lemma parse_field_zpad: "n < 10 ^ w \<Longrightarrow> 0 < w \<Longrightarrow> parse_field w (zpad w n) = Some n"
  by (simp add: parse_field_def length_zpad parse_nat_zpad)

lemma parse_hour_label: "h < 10 ^ 2 \<Longrightarrow> parse_hour (hour_label h) = Some h"
  by (simp add: parse_hour_def hour_label_def length_zpad parse_nat_zpad)

lemma those_str_of: "those (map str_of (map PyStr xs)) = Some xs"
  by (induction xs) simp_all

lemma those_str_of_map: "those (map str_of (map (\<lambda>x. PyStr (f x)) xs)) = Some (map f xs)"
  by (induction xs) simp_all

lemma decode_encode_request:
  assumes "request_wf r"
  shows "decode_request (encode_request r) = Some r"
proof -
  note b = request_wf_bounds [OF assms]
  have y: "those (map (parse_field 4) (map (zpad 4) (rq_year r))) = Some (rq_year r)"
    using b(1) by (intro those_map_inverse) (simp add: list_all_iff parse_field_zpad)
  have m: "those (map (parse_field 2) (map (zpad 2) (rq_month r))) = Some (rq_month r)"
    using b(2) by (intro those_map_inverse) (simp add: list_all_iff parse_field_zpad)
  have d: "those (map (parse_field 2) (map (zpad 2) (rq_day r))) = Some (rq_day r)"
    using b(3) by (intro those_map_inverse) (simp add: list_all_iff parse_field_zpad)
  have h: "those (map parse_hour (map hour_label (rq_time r))) = Some (rq_time r)"
    using b(4) by (intro those_map_inverse) (simp add: list_all_iff parse_hour_label)
  obtain n w s e where a: "rq_area r = (n, w, s, e)" by (cases "rq_area r") auto
  show ?thesis
    using y m d h a
    by (simp add: decode_request_def encode_request_def dict_get_def those_str_of
        those_str_of_map del: map_map)
qed

section \<open>Properties of the request\<close>

text \<open>C11 (the request is well formed): the dictionary decodes to a request whose
  dates are calendar dates, whose times are distinct hours of the day, whose lists are
  non-empty and free of repeats, and whose area is a proper box.\<close>

theorem request_wellformed:
  "decode_request get_request_params = Some era5_spec \<and> request_wf era5_spec"
  using decode_encode_request [OF era5_spec_wf] era5_spec_wf
  by (simp add: get_request_params_eq)

end
