(* ===== verification/Workflow.thy ===== *)
theory Workflow
  imports World Filename Request "HOL-Library.Sublist"
begin

text \<open>
  The three steps of the script and their composition: \<open>extract_data\<close> (lines
  54--61), \<open>preview_dataset\<close> (lines 64--70), the \<open>__main__\<close> block (lines 73--78)
  and the whole run, module initialisation first, with the process exit status. The
  remote service (\<open>client.retrieve\<close>) and the NetCDF reader
  (\<open>xr.open_dataset(..., engine="netcdf4")\<close>) are libraries: they are parameters
  here, and what the claims need of them is stated as a contract predicate
  (\<open>retrieve_writes\<close>, \<open>retrieve_local\<close>). Every \<open>raise\<close> is the
  \<open>Inl\<close> branch of the result.
\<close>

section \<open>Interfaces\<close>

type_synonym fsys = "path \<rightharpoonup> bytes"

text \<open>\<open>client.retrieve(dataset, request, target)\<close>: blocks until done; may write the
  target (also partially, when it fails) and returns or raises.\<close>

type_synonym 'c retrieve_fn = "'c \<Rightarrow> string \<Rightarrow> pydict \<Rightarrow> path \<Rightarrow> fsys \<Rightarrow> (pyexc + unit) \<times> fsys"

text \<open>\<open>xr.open_dataset(path, engine="netcdf4")\<close>: reads the file system, returns a
  dataset or raises.\<close>

type_synonym 'd open_fn = "fsys \<Rightarrow> path \<Rightarrow> pyexc + 'd"

text \<open>The service's promise the spec relies on: a retrieval that returns has written a
  non-empty file at the target.\<close>

definition retrieve_writes :: "'c retrieve_fn \<Rightarrow> bool" where
  "retrieve_writes retrieve \<longleftrightarrow>
     (\<forall>c ds rq p fs fs'. retrieve c ds rq p fs = (Inr (), fs') \<longrightarrow>
        (\<exists>bs. fs' p = Some bs \<and> bs \<noteq> []))"

text \<open>A service that writes nothing but its target path, whether it returns or raises.\<close>

definition retrieve_local :: "'c retrieve_fn \<Rightarrow> bool" where
  "retrieve_local retrieve \<longleftrightarrow>
     (\<forall>c ds rq p fs r fs'. retrieve c ds rq p fs = (r, fs') \<longrightarrow> (\<forall>q. q \<noteq> p \<longrightarrow> fs' q = fs q))"

section \<open>Log messages\<close>

text \<open>The f-strings of the source, with the accented letters as their code points:
  \<open>CHR 0xE7\<close> is c-cedilla, \<open>CHR 0xE3\<close> a-tilde, \<open>CHR 0xE9\<close> e-acute and
  \<open>CHR 0xED\<close> i-acute.\<close>

definition msg_extract_start :: "path \<Rightarrow> string" where
  "msg_extract_start f = ''Iniciando extra'' @ [CHR 0xE7, CHR 0xE3] @ ''o para '' @ f @ '' ...''"

definition msg_extract_ok :: "path \<Rightarrow> string" where
  "msg_extract_ok f =
     ''Extra'' @ [CHR 0xE7, CHR 0xE3] @ ''o conclu'' @ [CHR 0xED] @ ''da com sucesso: '' @ f"

definition msg_extract_err :: "pyexc \<Rightarrow> string" where
  "msg_extract_err e = ''Erro durante a extra'' @ [CHR 0xE7, CHR 0xE3] @ ''o: '' @ exc_str e"

definition msg_preview :: "string \<Rightarrow> string" where
  "msg_preview s = ''Pr'' @ [CHR 0xE9] @ ''-visualiza'' @ [CHR 0xE7, CHR 0xE3] @ ''o do dataset: '' @ s"

definition msg_preview_err :: "pyexc \<Rightarrow> string" where
  "msg_preview_err e = ''Erro ao abrir o arquivo NetCDF: '' @ exc_str e"

section \<open>The steps\<close>

definition extract_data ::
  "'c retrieve_fn \<Rightarrow> 'c \<Rightarrow> string \<Rightarrow> pydict \<Rightarrow> path \<Rightarrow> world \<Rightarrow> (pyexc + unit) \<times> world" where
  "extract_data retrieve client dataset request output_file w =
     (let w1 = log_emit INFO (msg_extract_start output_file) w;
          (r, fs') = retrieve client dataset request output_file (files w1);
          w2 = w1\<lparr>files := fs'\<rparr>
      in case r of
           Inr u \<Rightarrow> (Inr u, log_emit INFO (msg_extract_ok output_file) w2)
         | Inl e \<Rightarrow>
             if is_exception e then (Inl e, log_emit ERROR (msg_extract_err e) w2)
             else (Inl e, w2))"

text \<open>\<open>repr\<close> is \<open>str\<close> of the dataset, the summary of dimensions, variables and
  attributes the f-string inserts.\<close>

definition preview_dataset ::
  "'d open_fn \<Rightarrow> ('d \<Rightarrow> string) \<Rightarrow> path \<Rightarrow> world \<Rightarrow> (pyexc + unit) \<times> world" where
  "preview_dataset opn repr nc_file w =
     (case opn (files w) nc_file of
        Inr ds \<Rightarrow> (Inr (), log_emit INFO (msg_preview (repr ds)) w)
      | Inl e \<Rightarrow>
          if is_exception e then (Inl e, log_emit ERROR (msg_preview_err e) w)
          else (Inl e, w))"

definition dataset_id :: string where
  "dataset_id = ''reanalysis-era5-single-levels''"

text \<open>The \<open>__main__\<close> block: \<open>generate_output_filename()\<close> reads the clock once,
  the same \<open>output_file\<close> goes to both steps, and an exception of
  \<open>extract_data\<close> ends the block before the preview.\<close>

definition main ::
  "'c retrieve_fn \<Rightarrow> 'd open_fn \<Rightarrow> ('d \<Rightarrow> string) \<Rightarrow> 'c \<Rightarrow> world \<Rightarrow> (pyexc + unit) \<times> world" where
  "main retrieve opn repr client w =
     (let dataset = dataset_id;
          request = get_request_params;
          (now, w0) = read_clock w;
          output_file = generate_output_filename ''extract'' now
      in case extract_data retrieve client dataset request output_file w0 of
           (Inl e, w1) \<Rightarrow> (Inl e, w1)
         | (Inr _, w1) \<Rightarrow> preview_dataset opn repr output_file w1)"

text \<open>Running the file as a program: the module body, then the \<open>__main__\<close> block.\<close>

definition run_script ::
  "(client_cfg \<Rightarrow> pyexc + 'c) \<Rightarrow> 'c retrieve_fn \<Rightarrow> 'd open_fn \<Rightarrow> ('d \<Rightarrow> string) \<Rightarrow> world \<Rightarrow>
   (pyexc + unit) \<times> world" where
  "run_script make_client retrieve opn repr w =
     (case module_init make_client w of
        (Inl e, w1) \<Rightarrow> (Inl e, w1)
      | (Inr c, w1) \<Rightarrow> main retrieve opn repr c w1)"

text \<open>The interpreter's exit status: 0 when the script returns; 1 after the traceback
  of an uncaught \<open>Exception\<close>; an uncaught \<open>KeyboardInterrupt\<close> ends the process
  by \<open>SIGINT\<close>, which a shell reports as 130. For \<open>SystemExit(c)\<close>,
  \<open>_Py_HandleSystemExit\<close> reads \<open>c\<close> as a C \<open>long long\<close> (on overflow it
  uses \<open>-1\<close>) and \<open>exit()\<close> keeps the low 8 bits.\<close>

fun exit_status :: "pyexc + unit \<Rightarrow> int" where
  "exit_status (Inr _) = 0"
| "exit_status (Inl (PyException _ _)) = 1"
| "exit_status (Inl KeyboardInterrupt) = 130"
| "exit_status (Inl (SystemExit c)) =
     (if - (2 ^ 63) \<le> c \<and> c < 2 ^ 63 then c mod 256 else 255)"

section \<open>Test doubles\<close>

text \<open>Substitutes for the service and the reader, as the spec suggests for tests: a
  service that writes the four-byte header of a classic NetCDF file, one that is refused
  (bad credentials), and a reader that accepts a file starting with \<open>CDF\<close>.\<close>

definition cdf_magic :: bytes where
  "cdf_magic = [0x43, 0x44, 0x46, 0x01]"

definition fake_retrieve :: "unit retrieve_fn" where
  "fake_retrieve c ds rq p fs = (Inr (), fs(p \<mapsto> cdf_magic))"

definition unauthorized :: pyexc where
  "unauthorized = PyException ''HTTPError'' ''401 Client Error: Unauthorized''"

definition failing_retrieve :: "unit retrieve_fn" where
  "failing_retrieve c ds rq p fs = (Inl unauthorized, fs)"

definition fake_open :: "bytes open_fn" where
  "fake_open fs p =
     (case fs p of
        None \<Rightarrow> Inl (PyException ''FileNotFoundError'' (''[Errno 2] No such file or directory: '' @ p))
      | Some bs \<Rightarrow>
          if take 3 bs = take 3 cdf_magic then Inr bs
          else Inl (PyException ''ValueError'' ''unrecognized engine netcdf4''))"

definition fake_repr :: "bytes \<Rightarrow> string" where
  "fake_repr bs = ''<xarray.Dataset> Dimensions: (valid_time: 120, latitude: 17, longitude: 21)''"

text \<open>The state after the module body in a fresh interpreter with an empty environment,
  no \<open>.env\<close>, no files, and the clock of the spec's scenario.\<close>

definition spec_start :: world where
  "spec_start = fresh_world Map.empty None Map.empty (\<lambda>_. spec_clock)"

definition spec_world :: world where
  "spec_world = basicConfig (Some INFO) log_format (fresh_world Map.empty None Map.empty (\<lambda>_. spec_clock))"

section \<open>Lemmas\<close>

lemma read_clock_simps [simp]:
  "fst (read_clock w) = clock w (now_calls w)"
  "files (snd (read_clock w)) = files w" "log (snd (read_clock w)) = log w"
  "environ (snd (read_clock w)) = environ w" "log_level (snd (read_clock w)) = log_level w"
  "log_handler (snd (read_clock w)) = log_handler w" "clock (snd (read_clock w)) = clock w"
  "now_calls (snd (read_clock w)) = Suc (now_calls w)"
  by (simp_all add: read_clock_def)

lemma log_emit_frame [simp]:
  "files (log_emit l m w) = files w" "clock (log_emit l m w) = clock w"
  "now_calls (log_emit l m w) = now_calls w"
  "environ (log_emit l m w) = environ w" "log_level (log_emit l m w) = log_level w"
  by (simp_all add: log_emit_def basicConfig_def Let_def)

lemma log_emit_prefix: "prefix (log w) (log (log_emit l m w))"
  by (simp add: log_emit_def basicConfig_def Let_def)

lemma log_emit_configured:
  assumes "log_handler w \<noteq> None"
  shows "log_emit l m w =
     (if log_level w \<le> l then w\<lparr>log := log w @ [\<lparr>rec_level = l, rec_msg = m\<rparr>]\<rparr> else w)"
proof -
  have "(log_handler w = None) = False" using assms by simp
  then show ?thesis by (simp only: log_emit_def Let_def if_False)
qed

lemma extract_data_Inl:
  assumes "retrieve client ds rq f (files w) = (Inl e, fs')"
  shows "extract_data retrieve client ds rq f w =
     (Inl e, if is_exception e
             then log_emit ERROR (msg_extract_err e) ((log_emit INFO (msg_extract_start f) w)\<lparr>files := fs'\<rparr>)
             else (log_emit INFO (msg_extract_start f) w)\<lparr>files := fs'\<rparr>)"
  using assms by (simp add: extract_data_def)

lemma extract_data_Inr:
  assumes "retrieve client ds rq f (files w) = (Inr u, fs')"
  shows "extract_data retrieve client ds rq f w =
     (Inr u, log_emit INFO (msg_extract_ok f) ((log_emit INFO (msg_extract_start f) w)\<lparr>files := fs'\<rparr>))"
  using assms by (simp add: extract_data_def)

lemma extract_data_result:
  obtains e fs' where "retrieve client ds rq f (files w) = (Inl e, fs')"
  | u fs' where "retrieve client ds rq f (files w) = (Inr u, fs')"
proof (cases "retrieve client ds rq f (files w)")
  case (Pair r fs')
  then show thesis using that by (cases r) auto
qed

lemma extract_data_InrD:
  assumes "extract_data retrieve client ds rq f w = (Inr u, w1)"
  shows "\<exists>fs'. retrieve client ds rq f (files w) = (Inr u, fs') \<and>
    w1 = log_emit INFO (msg_extract_ok f) ((log_emit INFO (msg_extract_start f) w)\<lparr>files := fs'\<rparr>)"
  using assms by (auto simp: extract_data_def Let_def split: prod.splits sum.splits if_splits)

text \<open>What a step leaves of the files: the service's result, all of it outside the
  target when the service is local; the preview writes nothing.\<close>

lemma extract_data_files:
  "\<exists>r. retrieve client ds rq f (files w) = (r, files (snd (extract_data retrieve client ds rq f w)))"
  by (cases rule: extract_data_result [of retrieve client ds rq f w])
     (auto simp: extract_data_Inl extract_data_Inr)

lemma extract_data_files_other:
  assumes "retrieve_local retrieve" "q \<noteq> f"
  shows "files (snd (extract_data retrieve client ds rq f w)) q = files w q"
  using extract_data_files [of retrieve client ds rq f w] assms
  unfolding retrieve_local_def by blast

lemma preview_dataset_frame:
  "files (snd (preview_dataset opn repr p w)) = files w \<and>
   clock (snd (preview_dataset opn repr p w)) = clock w \<and>
   environ (snd (preview_dataset opn repr p w)) = environ w \<and>
   prefix (log w) (log (snd (preview_dataset opn repr p w)))"
  by (auto simp: preview_dataset_def log_emit_prefix split: sum.split)

lemma main_cases:
  obtains e w1 where
    "extract_data retrieve client dataset_id get_request_params
       (generate_output_filename ''extract'' (fst (read_clock w))) (snd (read_clock w)) = (Inl e, w1)"
    "main retrieve opn repr client w = (Inl e, w1)"
  | u w1 where
    "extract_data retrieve client dataset_id get_request_params
       (generate_output_filename ''extract'' (fst (read_clock w))) (snd (read_clock w)) = (Inr u, w1)"
    "main retrieve opn repr client w =
       preview_dataset opn repr (generate_output_filename ''extract'' (fst (read_clock w))) w1"
proof (cases "extract_data retrieve client dataset_id get_request_params
       (generate_output_filename ''extract'' (fst (read_clock w))) (snd (read_clock w))")
  case (Pair r w1)
  then show thesis using that
    by (cases r) (simp_all add: main_def read_clock_def split: prod.splits)
qed

lemma main_files_other:
  assumes "retrieve_local retrieve" "q \<noteq> generate_output_filename ''extract'' (clock w (now_calls w))"
  shows "files (snd (main retrieve opn repr client w)) q = files w q"
proof -
  let ?f = "generate_output_filename ''extract'' (fst (read_clock w))"
  have x: "files (snd (extract_data retrieve client dataset_id get_request_params ?f (snd (read_clock w)))) q
      = files w q"
    using extract_data_files_other [OF assms(1), of q ?f] assms(2) by simp
  show ?thesis
  proof (cases rule: main_cases [of retrieve client w opn repr])
    case (1 e w1)
    then show ?thesis using x by simp
  next
    case (2 u w1)
    then show ?thesis using x preview_dataset_frame [of opn repr _ w1] by simp
  qed
qed

lemma run_script_files_other:
  assumes "retrieve_local retrieve" "q \<noteq> generate_output_filename ''extract'' (clock w (now_calls w))"
  shows "files (snd (run_script mk retrieve opn repr w)) q = files w q"
proof (cases "mk (client_config (load_dotenv w))")
  case (Inl e)
  then show ?thesis by (simp add: run_script_def module_init_def)
next
  case (Inr c)
  let ?w1 = "basicConfig (Some INFO) log_format (load_dotenv w)"
  have c: "clock ?w1 = clock w" "now_calls ?w1 = now_calls w" "files ?w1 = files w"
    by (simp_all add: basicConfig_def)
  have "run_script mk retrieve opn repr w = main retrieve opn repr c ?w1"
    using Inr by (simp add: run_script_def module_init_def)
  with main_files_other [OF assms(1), of q ?w1 opn repr c] assms(2) c show ?thesis by simp
qed

text \<open>A run that returns, in an interpreter without a log handler: the reader opened
  the file named from the first clock reading, and the log gained the three \<open>INFO\<close>
  records of the two steps.\<close>

lemma run_script_Inr:
  assumes "log_handler w = None" "run_script mk retrieve opn repr w = (Inr u, w')"
  shows "\<exists>d. opn (files w') (generate_output_filename ''extract'' (clock w (now_calls w))) = Inr d \<and>
    log w' = log w @
      [\<lparr>rec_level = INFO, rec_msg = msg_extract_start (generate_output_filename ''extract'' (clock w (now_calls w)))\<rparr>,
       \<lparr>rec_level = INFO, rec_msg = msg_extract_ok (generate_output_filename ''extract'' (clock w (now_calls w)))\<rparr>,
       \<lparr>rec_level = INFO, rec_msg = msg_preview (repr d)\<rparr>]"
proof -
  let ?f = "generate_output_filename ''extract'' (clock w (now_calls w))"
  obtain c where c: "mk (client_config (load_dotenv w)) = Inr c"
    using assms(2) by (cases "mk (client_config (load_dotenv w))") (simp_all add: run_script_def module_init_def)
  let ?w1 = "basicConfig (Some INFO) log_format (load_dotenv w)"
  have w1: "log_handler ?w1 = Some log_format" "log_level ?w1 = INFO" "log ?w1 = log w"
    "clock ?w1 = clock w" "now_calls ?w1 = now_calls w"
    using assms(1) by (simp_all add: basicConfig_def)
  have m: "main retrieve opn repr c ?w1 = (Inr u, w')"
    using assms(2) c by (simp add: run_script_def module_init_def)
  show ?thesis
  proof (cases rule: main_cases [of retrieve c ?w1 opn repr])
    case (1 e w2)
    then show ?thesis using m by simp
  next
    case (2 u' w2)
    from extract_data_InrD [OF 2(1)] obtain fs' where
      w2: "w2 = log_emit INFO (msg_extract_ok ?f) ((log_emit INFO (msg_extract_start ?f) (snd (read_clock ?w1)))\<lparr>files := fs'\<rparr>)"
      using w1 by auto
    have h2: "log_handler w2 = Some log_format" "log_level w2 = INFO"
      "log w2 = log w @ [\<lparr>rec_level = INFO, rec_msg = msg_extract_start ?f\<rparr>,
                        \<lparr>rec_level = INFO, rec_msg = msg_extract_ok ?f\<rparr>]"
      using w1 unfolding w2 by (simp_all add: log_emit_configured read_clock_def)
    from 2(2) m have p: "preview_dataset opn repr ?f w2 = (Inr u, w')" using w1 by simp
    then obtain d where d: "opn (files w2) ?f = Inr d" "w' = log_emit INFO (msg_preview (repr d)) w2"
      by (auto simp: preview_dataset_def split: sum.splits if_splits)
    show ?thesis using d h2 by (simp add: log_emit_configured)
  qed
qed

lemma fake_retrieve_writes: "retrieve_writes fake_retrieve"
  by (simp add: retrieve_writes_def fake_retrieve_def cdf_magic_def)

lemma fake_retrieve_local: "retrieve_local fake_retrieve"
  by (simp add: retrieve_local_def fake_retrieve_def)

section \<open>Properties of the workflow\<close>

text \<open>C1 (a failed retrieval ends the run before the preview): when the service
  raises, the \<open>__main__\<close> block, after reading the clock for the output name, is
  exactly \<open>extract_data\<close> (the reader is never called), it propagates that same
  exception, and the files are what the service left.\<close>

theorem main_failure_no_preview:
  assumes "retrieve client dataset_id get_request_params
             (generate_output_filename ''extract'' (fst (read_clock w))) (files w) = (Inl e, fs')"
  shows "main retrieve opn repr client w =
           extract_data retrieve client dataset_id get_request_params
             (generate_output_filename ''extract'' (fst (read_clock w))) (snd (read_clock w)) \<and>
         fst (main retrieve opn repr client w) = Inl e \<and>
         files (snd (main retrieve opn repr client w)) = fs'"
  using assms by (simp add: main_def read_clock_def extract_data_Inl)

text \<open>C2 (the preview opens the file the retrieval wrote): the output name comes
  from one reading of the clock; if the service keeps its promise and
  \<open>extract_data\<close> returns, that file exists and is non-empty, and the rest of the
  run is the preview of that same file, however far the clock has moved since.\<close>

theorem main_success_file_ready:
  assumes "retrieve_writes retrieve"
    and "extract_data retrieve client dataset_id get_request_params
           (generate_output_filename ''extract'' (fst (read_clock w))) (snd (read_clock w)) = (Inr (), w1)"
  shows "(\<exists>bs. files w1 (generate_output_filename ''extract'' (fst (read_clock w))) = Some bs \<and> bs \<noteq> []) \<and>
         main retrieve opn repr client w =
           preview_dataset opn repr (generate_output_filename ''extract'' (fst (read_clock w))) w1"
proof -
  let ?f = "generate_output_filename ''extract'' (fst (read_clock w))"
  from extract_data_InrD [OF assms(2)] obtain fs' where
    ret: "retrieve client dataset_id get_request_params ?f (files (snd (read_clock w))) = (Inr (), fs')" and
    w1: "w1 = log_emit INFO (msg_extract_ok ?f) ((log_emit INFO (msg_extract_start ?f) (snd (read_clock w)))\<lparr>files := fs'\<rparr>)"
    by blast
  from assms(1) ret have "\<exists>bs. fs' ?f = Some bs \<and> bs \<noteq> []"
    unfolding retrieve_writes_def by blast
  moreover from w1 have "files w1 = fs'" by simp
  moreover from assms(2) have "main retrieve opn repr client w = preview_dataset opn repr ?f w1"
    by (simp add: main_def read_clock_def)
  ultimately show ?thesis by simp
qed

text \<open>C3 (retrieval error is logged and re-raised): when the service raises an
  \<open>Exception\<close>, \<open>extract_data\<close> logs the start, then the error with the exception's
  message, and raises the same exception.\<close>

theorem extract_data_error:
  assumes "retrieve client ds rq f (files w) = (Inl e, fs')" and "is_exception e"
  shows "extract_data retrieve client ds rq f w =
     (Inl e, log_emit ERROR (msg_extract_err e) ((log_emit INFO (msg_extract_start f) w)\<lparr>files := fs'\<rparr>))"
  using assms by (simp add: extract_data_Inl)

text \<open>C4 (successful retrieval): \<open>extract_data\<close> logs the start, keeps the files the
  service wrote, logs the success with the file name, and returns.\<close>

theorem extract_data_success:
  assumes "retrieve client ds rq f (files w) = (Inr (), fs')"
  shows "extract_data retrieve client ds rq f w =
     (Inr (), log_emit INFO (msg_extract_ok f) ((log_emit INFO (msg_extract_start f) w)\<lparr>files := fs'\<rparr>))"
  using assms by (rule extract_data_Inr)

text \<open>C5 (interrupts are not caught): a \<open>BaseException\<close> that is not an
  \<open>Exception\<close> (\<open>KeyboardInterrupt\<close>, \<open>SystemExit\<close>) passes through
  \<open>except Exception\<close> unlogged.\<close>

theorem extract_data_uncaught:
  assumes "retrieve client ds rq f (files w) = (Inl e, fs')" and "\<not> is_exception e"
  shows "extract_data retrieve client ds rq f w =
     (Inl e, (log_emit INFO (msg_extract_start f) w)\<lparr>files := fs'\<rparr>)"
  using assms by (simp add: extract_data_Inl)

text \<open>C6 (the preview only reads): on every branch the preview leaves the files as
  they were.\<close>

theorem preview_files_unchanged:
  "files (snd (preview_dataset opn repr p w)) = files w"
  using preview_dataset_frame by blast

text \<open>C7 (read error is logged and re-raised): when the reader raises an
  \<open>Exception\<close>, the preview logs it and raises it.\<close>

theorem preview_error:
  assumes "opn (files w) p = Inl e" and "is_exception e"
  shows "preview_dataset opn repr p w = (Inl e, log_emit ERROR (msg_preview_err e) w)"
  using assms by (simp add: preview_dataset_def)

section \<open>Witnesses\<close>

text \<open>A configured interpreter whose clock moves on by a second at every call of
  \<open>datetime.now()\<close>.\<close>

lemma ticking_world_clock:
  "fst (read_clock (spec_world\<lparr>clock := \<lambda>n. spec_clock\<lparr>second := n\<rparr>\<rparr>)) = spec_clock"
  by (simp add: spec_world_def fresh_world_def basicConfig_def spec_clock_def)

theorem main_failure_no_preview_witness:
  "failing_retrieve () dataset_id get_request_params
     (generate_output_filename ''extract'' (fst (read_clock spec_world))) (files spec_world) =
     (Inl unauthorized, files spec_world) \<and>
   main failing_retrieve fake_open fake_repr () spec_world =
     extract_data failing_retrieve () dataset_id get_request_params
       (generate_output_filename ''extract'' (fst (read_clock spec_world))) (snd (read_clock spec_world)) \<and>
   fst (main failing_retrieve fake_open fake_repr () spec_world) = Inl unauthorized"
proof -
  have h: "failing_retrieve () dataset_id get_request_params
     (generate_output_filename ''extract'' (fst (read_clock spec_world))) (files spec_world) =
     (Inl unauthorized, files spec_world)"
    by (simp add: failing_retrieve_def)
  from h main_failure_no_preview [where retrieve = failing_retrieve and client = "()"
    and w = spec_world and opn = fake_open and repr = fake_repr, OF h] show ?thesis by blast
qed

theorem main_success_file_ready_witness:
  "retrieve_writes fake_retrieve \<and>
   extract_data fake_retrieve () dataset_id get_request_params ''extract_20250101_120000.nc''
     (snd (read_clock (spec_world\<lparr>clock := \<lambda>n. spec_clock\<lparr>second := n\<rparr>\<rparr>))) =
     (Inr (), snd (extract_data fake_retrieve () dataset_id get_request_params ''extract_20250101_120000.nc''
        (snd (read_clock (spec_world\<lparr>clock := \<lambda>n. spec_clock\<lparr>second := n\<rparr>\<rparr>))))) \<and>
   main fake_retrieve fake_open fake_repr () (spec_world\<lparr>clock := \<lambda>n. spec_clock\<lparr>second := n\<rparr>\<rparr>) =
     preview_dataset fake_open fake_repr ''extract_20250101_120000.nc''
       (snd (extract_data fake_retrieve () dataset_id get_request_params ''extract_20250101_120000.nc''
          (snd (read_clock (spec_world\<lparr>clock := \<lambda>n. spec_clock\<lparr>second := n\<rparr>\<rparr>)))))"
proof -
  let ?w = "spec_world\<lparr>clock := \<lambda>n. spec_clock\<lparr>second := n\<rparr>\<rparr>"
  let ?x = "extract_data fake_retrieve () dataset_id get_request_params ''extract_20250101_120000.nc''
     (snd (read_clock ?w))"
  have f: "generate_output_filename ''extract'' (fst (read_clock ?w)) = ''extract_20250101_120000.nc''"
    by (simp only: ticking_world_clock spec_clock_filename)
  have e: "extract_data fake_retrieve () dataset_id get_request_params
      (generate_output_filename ''extract'' (fst (read_clock ?w))) (snd (read_clock ?w)) = (Inr (), snd ?x)"
    unfolding f by (simp add: extract_data_def fake_retrieve_def)
  from main_success_file_ready [where retrieve = fake_retrieve and client = "()" and w = ?w
    and opn = fake_open and repr = fake_repr, OF fake_retrieve_writes e]
  have "main fake_retrieve fake_open fake_repr () ?w =
      preview_dataset fake_open fake_repr ''extract_20250101_120000.nc'' (snd ?x)"
    unfolding f by blast
  with fake_retrieve_writes e show ?thesis unfolding f by simp
qed

theorem extract_data_error_witness:
  "failing_retrieve () dataset_id get_request_params ''out.nc'' (files spec_world) =
     (Inl unauthorized, files spec_world) \<and> is_exception unauthorized \<and>
   extract_data failing_retrieve () dataset_id get_request_params ''out.nc'' spec_world =
     (Inl unauthorized, log_emit ERROR (msg_extract_err unauthorized)
        ((log_emit INFO (msg_extract_start ''out.nc'') spec_world)\<lparr>files := files spec_world\<rparr>))"
proof -
  have h1: "failing_retrieve () dataset_id get_request_params ''out.nc'' (files spec_world) =
     (Inl unauthorized, files spec_world)" by (simp add: failing_retrieve_def)
  have h2: "is_exception unauthorized" by (simp add: unauthorized_def)
  show ?thesis using h1 h2 extract_data_error [where retrieve = failing_retrieve and client = "()"
    and ds = dataset_id and rq = get_request_params and f = "''out.nc''" and w = spec_world, OF h1 h2] by simp
qed

theorem extract_data_success_witness:
  "fake_retrieve () dataset_id get_request_params ''out.nc'' (files spec_world) =
     (Inr (), (files spec_world)(''out.nc'' \<mapsto> cdf_magic)) \<and>
   extract_data fake_retrieve () dataset_id get_request_params ''out.nc'' spec_world =
     (Inr (), log_emit INFO (msg_extract_ok ''out.nc'')
        ((log_emit INFO (msg_extract_start ''out.nc'') spec_world)
           \<lparr>files := (files spec_world)(''out.nc'' \<mapsto> cdf_magic)\<rparr>))"
proof -
  have h: "fake_retrieve () dataset_id get_request_params ''out.nc'' (files spec_world) =
     (Inr (), (files spec_world)(''out.nc'' \<mapsto> cdf_magic))" by (simp add: fake_retrieve_def)
  show ?thesis using h extract_data_success [where retrieve = fake_retrieve and client = "()"
    and ds = dataset_id and rq = get_request_params and f = "''out.nc''" and w = spec_world, OF h] by simp
qed

theorem extract_data_uncaught_witness:
  "(\<lambda>(c::unit) ds rq p fs. (Inl KeyboardInterrupt, fs)) () dataset_id get_request_params ''out.nc''
     (files spec_world) = (Inl KeyboardInterrupt, files spec_world) \<and>
   \<not> is_exception KeyboardInterrupt \<and>
   extract_data (\<lambda>(c::unit) ds rq p fs. (Inl KeyboardInterrupt, fs)) () dataset_id get_request_params
     ''out.nc'' spec_world =
     (Inl KeyboardInterrupt,
      (log_emit INFO (msg_extract_start ''out.nc'') spec_world)\<lparr>files := files spec_world\<rparr>)"
proof -
  have h1: "(\<lambda>(c::unit) ds rq p fs. (Inl KeyboardInterrupt, fs)) () dataset_id get_request_params
     ''out.nc'' (files spec_world) = (Inl KeyboardInterrupt, files spec_world)" by simp
  have h2: "\<not> is_exception KeyboardInterrupt" by simp
  show ?thesis using h1 h2 extract_data_uncaught [where retrieve = "\<lambda>(c::unit) ds rq p fs. (Inl KeyboardInterrupt, fs)"
    and client = "()" and ds = dataset_id and rq = get_request_params and f = "''out.nc''"
    and w = spec_world, OF h1 h2] by simp
qed

theorem preview_error_witness:
  "fake_open [''out.nc'' \<mapsto> [0]] ''out.nc'' =
     Inl (PyException ''ValueError'' ''unrecognized engine netcdf4'') \<and>
   preview_dataset fake_open fake_repr ''out.nc'' (spec_world\<lparr>files := [''out.nc'' \<mapsto> [0]]\<rparr>) =
     (Inl (PyException ''ValueError'' ''unrecognized engine netcdf4''),
      log_emit ERROR (msg_preview_err (PyException ''ValueError'' ''unrecognized engine netcdf4''))
        (spec_world\<lparr>files := [''out.nc'' \<mapsto> [0]]\<rparr>))"
proof -
  have h1: "fake_open (files (spec_world\<lparr>files := [''out.nc'' \<mapsto> [0]]\<rparr>)) ''out.nc'' =
     Inl (PyException ''ValueError'' ''unrecognized engine netcdf4'')"
    by (simp add: fake_open_def cdf_magic_def)
  have h2: "is_exception (PyException ''ValueError'' ''unrecognized engine netcdf4'')" by simp
  show ?thesis using h1 preview_error [where opn = fake_open and repr = fake_repr, OF h1 h2] by simp
qed

end
