(* ===== verification/Calendar.thy ===== *)
theory Calendar
  imports Datetime
begin

text \<open>
  The proleptic Gregorian calendar as Python's \<open>datetime\<close> counts it: day ordinals
  (0001-01-01 is day 1) and their conversion to and from dates, as CPython implements
  them (\<open>_days_before_year\<close>, \<open>_days_before_month\<close>, \<open>_ymd2ord\<close>,
  \<open>_ord2ymd\<close> of \<open>Lib/_pydatetime.py\<close>; \<open>ymd_to_ord\<close>/\<open>ord_to_ymd\<close> of the C
  module). \<open>datetime.now()\<close> (src/cdsAPI.py, line 24) turns the system clock into a
  date with them (theory \<open>Clock\<close>). The lemmas show, for the proofs of
  \<open>Clock\<close>, that \<open>_ord2ymd\<close> with its 400/100/4/1-year cycles and its month
  estimate \<open>(n + 50) >> 5\<close> returns a date of the calendar and is the inverse of
  \<open>_ymd2ord\<close>.
\<close>

section \<open>Constants and tables\<close>

text \<open>The number of days in 400, 100 and 4 years, and the month tables, indexed from 1
  (CPython stores \<open>-1\<close> at index 0, which is never read; here it is 0).\<close>

definition DI400Y :: nat where "DI400Y = 146097"
definition DI100Y :: nat where "DI100Y = 36524"
definition DI4Y :: nat where "DI4Y = 1461"

definition DAYS_IN_MONTH :: "nat list" where
  "DAYS_IN_MONTH = [0, 31, 28, 31, 30, 31, 30, 31, 31, 30, 31, 30, 31]"

definition DAYS_BEFORE_MONTH :: "nat list" where
  "DAYS_BEFORE_MONTH = [0, 0, 31, 59, 90, 120, 151, 181, 212, 243, 273, 304, 334]"

section \<open>Dates and ordinals\<close>

text \<open>The length of a year; the reference for \<open>_days_before_year\<close>.\<close>

definition days_in_year :: "nat \<Rightarrow> nat" where
  "days_in_year y = (if is_leap y then 366 else 365)"

text \<open>\<open>_days_before_year\<close>: days before January 1 of the year, in closed form.\<close>

definition days_before_year :: "nat \<Rightarrow> nat" where
  "days_before_year yr = (let y = yr - 1 in y * 365 + y div 4 - y div 100 + y div 400)"

text \<open>\<open>_days_before_month\<close> and \<open>_ymd2ord\<close>.\<close>

definition days_before_month :: "nat \<Rightarrow> nat \<Rightarrow> nat" where
  "days_before_month y m =
     DAYS_BEFORE_MONTH ! m + (if 2 < m \<and> is_leap y then 1 else 0)"

definition ymd2ord :: "nat \<Rightarrow> nat \<Rightarrow> nat \<Rightarrow> nat" where
  "ymd2ord y m d = days_before_year y + days_before_month y m + d"

text \<open>The tail of \<open>_ord2ymd\<close>: month and day from the day of the year \<open>n\<close>
  (0-based), \<open>leapyear\<close> already known. The month is first estimated as
  \<open>(n + 50) >> 5\<close> and corrected down by one when it overshoots.\<close>

definition ord2md :: "bool \<Rightarrow> nat \<Rightarrow> nat \<times> nat" where
  "ord2md leapyear n =
     (let month = drop_bit 5 (n + 50);
          preceding = DAYS_BEFORE_MONTH ! month + (if 2 < month \<and> leapyear then 1 else 0)
      in if n < preceding then
           (let month = month - 1;
                preceding = preceding - (DAYS_IN_MONTH ! month + (if month = 2 \<and> leapyear then 1 else 0))
            in (month, n - preceding + 1))
         else (month, n - preceding + 1))"

text \<open>\<open>_ord2ymd\<close>: the date of a day ordinal. The ordinal less one is split into
  400-year cycles, 100-year cycles, 4-year cycles and single years; the last day of a
  4-year or 400-year cycle comes out as year \<open>4\<close> or century \<open>4\<close> and is December 31
  of the year before.\<close>

definition ord2ymd :: "nat \<Rightarrow> nat \<times> nat \<times> nat" where
  "ord2ymd ordinal =
     (let n = ordinal - 1;
          n400 = n div DI400Y; n = n mod DI400Y;
          n100 = n div DI100Y; n = n mod DI100Y;
          n4 = n div DI4Y; n = n mod DI4Y;
          n1 = n div 365; n = n mod 365;
          yr = n400 * 400 + 1 + n100 * 100 + n4 * 4 + n1
      in if n1 = 4 \<or> n100 = 4 then (yr - 1, 12, 31)
         else (let leapyear = (n1 = 3 \<and> (n4 \<noteq> 24 \<or> n100 = 3));
                   (m, d) = ord2md leapyear n
               in (yr, m, d)))"

text \<open>A date of the proleptic calendar (no upper bound on the year).\<close>

definition cal_valid :: "nat \<Rightarrow> nat \<Rightarrow> nat \<Rightarrow> bool" where
  "cal_valid y m d \<longleftrightarrow> 1 \<le> y \<and> 1 \<le> m \<and> m \<le> 12 \<and> 1 \<le> d \<and> d \<le> days_in_month y m"

section \<open>Lemmas\<close>

lemma Suc_div_split: "0 < k \<Longrightarrow> Suc n div k = n div k + (if Suc n mod k = 0 then 1 else 0)"
  by (simp add: div_Suc)

lemma diff_add_shift:
  "q \<le> (p::nat) \<Longrightarrow> b \<le> a \<Longrightarrow> p + a - (q + b) + (r + c) = p - q + r + (a - b + c)"
  by arith

lemma leap_count_Suc:
  "Suc n div 4 - Suc n div 100 + Suc n div 400 =
   n div 4 - n div 100 + n div 400 + (if is_leap (Suc n) then 1 else 0)"
proof -
  define A where "A = (if Suc n mod 4 = 0 then 1 else 0 :: nat)"
  define B where "B = (if Suc n mod 100 = 0 then 1 else 0 :: nat)"
  define C where "C = (if Suc n mod 400 = 0 then 1 else 0 :: nat)"
  have m: "n div 100 \<le> n div 4" by (rule div_le_mono2) simp_all
  have d: "Suc n div 4 = n div 4 + A" "Suc n div 100 = n div 100 + B" "Suc n div 400 = n div 400 + C"
    unfolding A_def B_def C_def by (simp_all only: Suc_div_split zero_less_numeral)
  have i1: "Suc n mod 100 = 0 \<Longrightarrow> Suc n mod 4 = 0"
    using mod_mod_cancel [of 4 100 "Suc n"] by simp
  have i2: "Suc n mod 400 = 0 \<Longrightarrow> Suc n mod 100 = 0"
    using mod_mod_cancel [of 100 400 "Suc n"] by simp
  have ba: "B \<le> A" using i1 by (simp add: A_def B_def)
  have l: "(if is_leap (Suc n) then 1 else 0) = A - B + C"
    using i1 i2 unfolding is_leap_def A_def B_def C_def
    by (cases "Suc n mod 4 = 0"; cases "Suc n mod 100 = 0"; cases "Suc n mod 400 = 0") simp_all
  show ?thesis unfolding d l by (rule diff_add_shift [OF m ba])
qed

lemma days_before_year_eq:
  "days_before_year (Suc n) = n * 365 + (n div 4 - n div 100 + n div 400)"
proof -
  have "n div 100 \<le> n div 4" by (rule div_le_mono2) simp_all
  then show ?thesis unfolding days_before_year_def Let_def by simp linarith
qed

lemma days_before_year_Suc:
  "0 < y \<Longrightarrow> days_before_year (Suc y) = days_before_year y + days_in_year y"
proof -
  assume "0 < y"
  then obtain n where y: "y = Suc n" by (cases y) simp_all
  have "days_in_year (Suc n) = 365 + (if is_leap (Suc n) then 1 else 0)"
    by (simp add: days_in_year_def)
  then show ?thesis
    unfolding y days_before_year_eq leap_count_Suc by simp
qed

lemma dby_decomp:
  assumes "b \<le> 3" "c \<le> 24" "d \<le> 3"
  shows "days_before_year (400 * a + 100 * b + 4 * c + d + 1) = 146097 * a + 36524 * b + 1461 * c + 365 * d"
proof -
  let ?n = "400 * a + 100 * b + 4 * c + d"
  have e4: "?n = d + 4 * (100 * a + 25 * b + c)" by simp
  have e100: "?n = (4 * c + d) + 100 * (4 * a + b)" by simp
  have e400: "?n = (100 * b + 4 * c + d) + 400 * a" by simp
  have d4: "?n div 4 = 100 * a + 25 * b + c"
    unfolding e4 using assms by (subst div_mult_self2) simp_all
  have d100: "?n div 100 = 4 * a + b"
    unfolding e100 using assms by (subst div_mult_self2) simp_all
  have d400: "?n div 400 = a"
    unfolding e400 using assms by (subst div_mult_self2) simp_all
  have "days_before_year (?n + 1) = ?n * 365 + (?n div 4 - ?n div 100 + ?n div 400)"
    unfolding Suc_eq_plus1 [symmetric] by (rule days_before_year_eq)
  also have "\<dots> = ?n * 365 + (100 * a + 25 * b + c - (4 * a + b) + a)"
    by (simp only: d4 d100 d400)
  also have "\<dots> = 146097 * a + 36524 * b + 1461 * c + 365 * d"
    by arith
  finally show ?thesis .
qed

lemma mod_zero_upto: "0 < x \<Longrightarrow> x \<le> k \<Longrightarrow> x mod k = 0 \<longleftrightarrow> x = (k::nat)"
  by (cases "x = k") simp_all

lemma leap_decomp:
  assumes "b \<le> 3" "c \<le> 24" "d \<le> 3"
  shows "is_leap (400 * a + 100 * b + 4 * c + d + 1) \<longleftrightarrow> d = 3 \<and> (c \<noteq> 24 \<or> b = 3)"
proof -
  let ?y = "400 * a + 100 * b + 4 * c + d + 1"
  have "?y = (d + 1) + 4 * (100 * a + 25 * b + c)" by simp
  then have "?y mod 4 = (d + 1) mod 4" by (simp only: mod_mult_self2)
  also have "\<dots> = 0 \<longleftrightarrow> d = 3" using assms by (subst mod_zero_upto) simp_all
  finally have m4: "?y mod 4 = 0 \<longleftrightarrow> d = 3" .
  have "?y = (4 * c + d + 1) + 100 * (4 * a + b)" by simp
  then have "?y mod 100 = (4 * c + d + 1) mod 100" by (simp only: mod_mult_self2)
  also have "\<dots> = 0 \<longleftrightarrow> c = 24 \<and> d = 3" using assms by (subst mod_zero_upto) (simp_all, arith)
  finally have m100: "?y mod 100 = 0 \<longleftrightarrow> c = 24 \<and> d = 3" .
  have "?y = (100 * b + 4 * c + d + 1) + 400 * a" by simp
  then have "?y mod 400 = (100 * b + 4 * c + d + 1) mod 400" by (simp only: mod_mult_self2)
  also have "\<dots> = 0 \<longleftrightarrow> b = 3 \<and> c = 24 \<and> d = 3" using assms by (subst mod_zero_upto) (simp_all, arith)
  finally have m400: "?y mod 400 = 0 \<longleftrightarrow> b = 3 \<and> c = 24 \<and> d = 3" .
  show ?thesis unfolding is_leap_def m4 m100 m400 by auto
qed
lemma ord2md_table:
  "list_all (\<lambda>n. case ord2md lp n of (m, d) \<Rightarrow>
      1 \<le> m \<and> m \<le> 12 \<and> 1 \<le> d \<and> d \<le> DAYS_IN_MONTH ! m + (if m = 2 \<and> lp then 1 else 0) \<and>
      DAYS_BEFORE_MONTH ! m + (if 2 < m \<and> lp then 1 else 0) + d = Suc n) [0..<365]"
  by (cases lp) (simp_all add: ord2md_def DAYS_BEFORE_MONTH_def DAYS_IN_MONTH_def upt_rec drop_bit_eq_div)


lemma ord2md_facts:
  assumes "n < 365" "ord2md lp n = (m, d)"
  shows "1 \<le> m" "m \<le> 12" "1 \<le> d" "d \<le> DAYS_IN_MONTH ! m + (if m = 2 \<and> lp then 1 else 0)"
    "DAYS_BEFORE_MONTH ! m + (if 2 < m \<and> lp then 1 else 0) + d = Suc n"
proof -
  from ord2md_table [of lp] assms(1) have "case ord2md lp n of (m, d) \<Rightarrow>
      1 \<le> m \<and> m \<le> 12 \<and> 1 \<le> d \<and> d \<le> DAYS_IN_MONTH ! m + (if m = 2 \<and> lp then 1 else 0) \<and>
      DAYS_BEFORE_MONTH ! m + (if 2 < m \<and> lp then 1 else 0) + d = Suc n"
    unfolding list_all_iff by simp
  with assms(2) show "1 \<le> m" "m \<le> 12" "1 \<le> d" "d \<le> DAYS_IN_MONTH ! m + (if m = 2 \<and> lp then 1 else 0)"
    "DAYS_BEFORE_MONTH ! m + (if 2 < m \<and> lp then 1 else 0) + d = Suc n" by simp_all
qed

lemma days_in_month_table:
  "1 \<le> m \<Longrightarrow> m \<le> 12 \<Longrightarrow>
   days_in_month y m = DAYS_IN_MONTH ! m + (if m = 2 \<and> is_leap y then 1 else 0)"
  by (cases "m = 2") (simp_all add: days_in_month_def DAYS_IN_MONTH_def nth_Cons')

lemma ord2ymd_correct:
  assumes "1 \<le> n" "ord2ymd n = (y, m, d)"
  shows "ymd2ord y m d = n \<and> 1 \<le> y \<and> 1 \<le> m \<and> m \<le> 12 \<and> 1 \<le> d \<and> d \<le> days_in_month y m"
proof -
  define n' where "n' = n - 1"
  define a where "a = n' div 146097"
  define r1 where "r1 = n' mod 146097"
  define b where "b = r1 div 36524"
  define r2 where "r2 = r1 mod 36524"
  define c where "c = r2 div 1461"
  define r3 where "r3 = r2 mod 1461"
  define e where "e = r3 div 365"
  define r4 where "r4 = r3 mod 365"
  have eq1: "n' = 146097 * a + r1" "r1 < 146097" unfolding a_def r1_def by simp_all
  have eq2: "r1 = 36524 * b + r2" "r2 < 36524" unfolding b_def r2_def by simp_all
  have eq3: "r2 = 1461 * c + r3" "r3 < 1461" unfolding c_def r3_def by simp_all
  have eq4: "r3 = 365 * e + r4" "r4 < 365" unfolding e_def r4_def by simp_all
  have unf: "ord2ymd n =
      (if e = 4 \<or> b = 4 then (a * 400 + 1 + b * 100 + c * 4 + e - 1, 12, 31)
       else (case ord2md (e = 3 \<and> (c \<noteq> 24 \<or> b = 3)) r4 of
               (m, d) \<Rightarrow> (a * 400 + 1 + b * 100 + c * 4 + e, m, d)))"
    unfolding ord2ymd_def Let_def DI400Y_def DI100Y_def DI4Y_def n'_def [symmetric]
      a_def [symmetric] r1_def [symmetric] b_def [symmetric] r2_def [symmetric]
      c_def [symmetric] r3_def [symmetric] e_def [symmetric] r4_def [symmetric] ..
  have n: "n = 146097 * a + 36524 * b + 1461 * c + 365 * e + r4 + 1"
    using assms(1) eq1 eq2 eq3 eq4 unfolding n'_def by linarith
  show ?thesis
  proof (cases "e = 4 \<or> b = 4")
    case True
    then have res: "y = 400 * a + 100 * b + 4 * c + e" "m = 12" "d = 31"
      using assms(2) unf by auto
    consider (century) "b = 4" "c = 0" "e = 0" "r4 = 0" | (quad) "e = 4" "b \<le> 3" "c \<le> 23" "r4 = 0"
      using True eq1 eq2 eq3 eq4 by linarith
    then show ?thesis
    proof cases
      case century
      then have y: "y = 400 * a + 100 * 3 + 4 * 24 + 3 + 1" using res by simp
      have "days_before_year y = 146097 * a + 36524 * 3 + 1461 * 24 + 365 * 3"
        unfolding y by (rule dby_decomp) simp_all
      moreover have "is_leap y" unfolding y by (subst leap_decomp) simp_all
      ultimately have "ymd2ord y 12 31 = 146097 * a + 36524 * 3 + 1461 * 24 + 365 * 3 + 335 + 31"
        by (simp add: ymd2ord_def days_before_month_def DAYS_BEFORE_MONTH_def)
      then show ?thesis using n century res by (simp add: days_in_month_def)
    next
      case quad
      then have y: "y = 400 * a + 100 * b + 4 * c + 3 + 1" using res by simp
      have "days_before_year y = 146097 * a + 36524 * b + 1461 * c + 365 * 3"
        unfolding y by (rule dby_decomp) (use quad in simp_all)
      moreover have "is_leap y" unfolding y by (subst leap_decomp) (use quad in simp_all)
      ultimately have "ymd2ord y 12 31 = 146097 * a + 36524 * b + 1461 * c + 365 * 3 + 335 + 31"
        by (simp add: ymd2ord_def days_before_month_def DAYS_BEFORE_MONTH_def)
      then show ?thesis using n quad res by (simp add: days_in_month_def)
    qed
  next
    case False
    then have bnd: "b \<le> 3" "c \<le> 24" "e \<le> 3" using eq1 eq2 eq3 eq4 by linarith+
    let ?lp = "e = 3 \<and> (c \<noteq> 24 \<or> b = 3)"
    from False assms(2) unf have md: "ord2md ?lp r4 = (m, d)" and y: "y = 400 * a + 100 * b + 4 * c + e + 1"
      by (auto split: prod.splits)
    have lp: "is_leap y \<longleftrightarrow> ?lp" unfolding y by (rule leap_decomp [OF bnd])
    note f = ord2md_facts [OF eq4(2) md]
    have "ymd2ord y m d = 146097 * a + 36524 * b + 1461 * c + 365 * e + Suc r4"
      unfolding ymd2ord_def days_before_month_def lp
      using dby_decomp [OF bnd, of a] f(5) y by simp
    moreover have "days_in_month y m = DAYS_IN_MONTH ! m + (if m = 2 \<and> ?lp then 1 else 0)"
      using days_in_month_table [OF f(1,2), of y] lp by simp
    ultimately show ?thesis using n f y by simp
  qed
qed

lemma dbm_table:
  "list_all (\<lambda>m. list_all (\<lambda>m2. m < m2 \<longrightarrow>
      DAYS_BEFORE_MONTH ! m + (if 2 < m \<and> lp then 1 else 0) + DAYS_IN_MONTH ! m + (if m = 2 \<and> lp then 1 else 0)
      \<le> DAYS_BEFORE_MONTH ! m2 + (if 2 < m2 \<and> lp then 1 else 0)) [1..<13]) [1..<13] \<and>
   list_all (\<lambda>m. DAYS_BEFORE_MONTH ! m + (if 2 < m \<and> lp then 1 else 0) + DAYS_IN_MONTH ! m +
      (if m = 2 \<and> lp then 1 else 0) \<le> 365 + (if lp then 1 else 0)) [1..<13]"
  by (cases lp) (simp_all add: DAYS_BEFORE_MONTH_def DAYS_IN_MONTH_def upt_rec)

lemma day_of_year_bounds:
  assumes "cal_valid y m d"
  shows "1 \<le> days_before_month y m + d" "days_before_month y m + d \<le> days_in_year y"
proof -
  from assms have m: "1 \<le> m" "m \<le> 12" and dd: "d \<le> days_in_month y m"
    by (simp_all add: cal_valid_def)
  from dbm_table [of "is_leap y"] m have
    "DAYS_BEFORE_MONTH ! m + (if 2 < m \<and> is_leap y then 1 else 0) + DAYS_IN_MONTH ! m +
      (if m = 2 \<and> is_leap y then 1 else 0) \<le> 365 + (if is_leap y then 1 else 0)"
    by (auto simp: list_all_iff)
  with dd days_in_month_table [OF m, of y] show "days_before_month y m + d \<le> days_in_year y"
    by (simp add: days_before_month_def days_in_year_def split: if_splits)
  show "1 \<le> days_before_month y m + d" using assms by (simp add: cal_valid_def)
qed

lemma day_of_year_inj:
  assumes "cal_valid y m d" "cal_valid y m2 d2" "days_before_month y m + d = days_before_month y m2 + d2"
  shows "m = m2 \<and> d = d2"
proof -
  have lt: "days_before_month y m + d < days_before_month y m2 + d2"
    if v: "cal_valid y m d" "cal_valid y m2 d2" and mm: "m < m2" for m d m2 d2
  proof -
    from v have b: "1 \<le> m" "m2 \<le> 12" "d \<le> days_in_month y m" "1 \<le> d2"
      by (simp_all add: cal_valid_def)
    from dbm_table [of "is_leap y"] b(1,2) mm have
      "DAYS_BEFORE_MONTH ! m + (if 2 < m \<and> is_leap y then 1 else 0) + DAYS_IN_MONTH ! m +
        (if m = 2 \<and> is_leap y then 1 else 0) \<le> DAYS_BEFORE_MONTH ! m2 + (if 2 < m2 \<and> is_leap y then 1 else 0)"
      by (auto simp: list_all_iff)
    with b days_in_month_table [of m y] mm show ?thesis
      by (simp add: days_before_month_def)
  qed
  have "m = m2" using lt [OF assms(1,2)] lt [OF assms(2,1)] assms(3) by (cases m m2 rule: linorder_cases) simp_all
  with assms(3) show ?thesis by simp
qed

lemma days_before_year_mono:
  "1 \<le> y \<Longrightarrow> y < y2 \<Longrightarrow> days_before_year y + days_in_year y \<le> days_before_year y2"
proof (induction y2)
  case 0
  then show ?case by simp
next
  case (Suc y2)
  then have "0 < y2" by simp
  then have "days_before_year (Suc y2) = days_before_year y2 + days_in_year y2"
    by (rule days_before_year_Suc)
  with Suc show ?case by (cases "y = y2") auto
qed

lemma ymd2ord_inj:
  assumes "cal_valid y m d" "cal_valid y2 m2 d2" "ymd2ord y m d = ymd2ord y2 m2 d2"
  shows "y = y2 \<and> m = m2 \<and> d = d2"
proof -
  have lt: "ymd2ord y m d < ymd2ord y2 m2 d2"
    if v: "cal_valid y m d" "cal_valid y2 m2 d2" and yy: "y < y2" for y m d y2 m2 d2
  proof -
    have "ymd2ord y m d \<le> days_before_year y + days_in_year y"
      using day_of_year_bounds (2) [OF v(1)] by (simp add: ymd2ord_def)
    also have "\<dots> \<le> days_before_year y2"
      using v(1) yy by (intro days_before_year_mono) (simp_all add: cal_valid_def)
    also have "\<dots> < ymd2ord y2 m2 d2"
      using day_of_year_bounds (1) [OF v(2)] unfolding ymd2ord_def by linarith
    finally show ?thesis .
  qed
  have "y = y2" using lt [OF assms(1,2)] lt [OF assms(2,1)] assms(3) by (cases y y2 rule: linorder_cases) simp_all
  with assms day_of_year_inj [of y m d m2 d2] show ?thesis by (simp add: ymd2ord_def)
qed

lemma ord2ymd_ymd2ord:
  assumes "cal_valid y m d"
  shows "ord2ymd (ymd2ord y m d) = (y, m, d)"
proof -
  obtain y2 m2 d2 where o: "ord2ymd (ymd2ord y m d) = (y2, m2, d2)" by (cases "ord2ymd (ymd2ord y m d)") auto
  have "1 \<le> ymd2ord y m d" using assms by (simp add: ymd2ord_def cal_valid_def)
  from ord2ymd_correct [OF this o] have "ymd2ord y2 m2 d2 = ymd2ord y m d" "cal_valid y2 m2 d2"
    by (simp_all add: cal_valid_def)
  with ymd2ord_inj [OF assms] o show ?thesis by metis
qed

end
