(* ===== verification/Clock.thy ===== *)
theory Clock
  imports Calendar Filename PyRuntime
begin

text \<open>
  \<open>datetime.now()\<close> (src/cdsAPI.py, line 24) as CPython computes it on a POSIX
  system (\<open>datetime_from_timet_and_us\<close> of \<open>Modules/_datetimemodule.c\<close>): the
  broken-down local time of the clock's second (\<open>localtime\<close>), range-checked as
  \<open>utc_to_seconds\<close> and the constructor do, then PEP 495's fold probe: the local time
  a day (\<open>max_fold_seconds\<close>) earlier gives the offset change \<open>transition\<close>; if
  the offset went down, the reading is looked up again \<open>transition\<close> seconds earlier
  and \<open>fold = 1\<close> when it is the same. The zone is a parameter: the UTC offset in
  force at each POSIX second. The lemmas show that at a fixed offset different seconds give different output names,
  and that when summer time ends two instants an hour apart give the same name.
\<close>

section \<open>The local clock\<close>

text \<open>A time zone: the UTC offset, in seconds, in force at each POSIX second.\<close>

type_synonym utcoffset = "int \<Rightarrow> int"

text \<open>The ordinal of 1970-01-01, the POSIX epoch.\<close>

definition EPOCH_ORDINAL :: nat where "EPOCH_ORDINAL = 719163"

definition max_fold_seconds :: int where "max_fold_seconds = 24 * 3600"

text \<open>The \<open>ValueError\<close> of a year outside 1..9999 (CPython's message names the
  year; it is abbreviated here).\<close>

definition year_error :: pyexc where
  "year_error = PyException ''ValueError'' ''year is out of range''"

text \<open>Seconds of local time since 0001-01-01 00:00, less one day: what
  \<open>localtime()\<close> breaks down.\<close>

definition local_secs :: "utcoffset \<Rightarrow> int \<Rightarrow> int" where
  "local_secs tz u = u + tz u + int (EPOCH_ORDINAL - 1) * 86400"

text \<open>\<open>localtime()\<close> of a POSIX second, checked for the year range: the day
  and the second of the day, the date by \<open>_ord2ymd\<close>.\<close>

definition localtime :: "utcoffset \<Rightarrow> int \<Rightarrow> pyexc + datetime" where
  "localtime tz u =
     (let s = local_secs tz u in
      if s < 0 then Inl year_error
      else (let sod = nat (s mod 86400) in
            case ord2ymd (nat (s div 86400) + 1) of (y, m, d) \<Rightarrow>
              if MAXYEAR < y then Inl year_error
              else Inr \<lparr>year = y, month = m, day = d, hour = sod div 3600,
                        minute = sod mod 3600 div 60, second = sod mod 60,
                        microsecond = 0, dt_fold = False\<rparr>))"

text \<open>\<open>utc_to_seconds\<close>: a broken-down time as seconds since the start of the
  calendar, \<open>((ordinal * 24 + hour) * 60 + minute) * 60 + second\<close>.\<close>

definition utc_to_seconds :: "datetime \<Rightarrow> int" where
  "utc_to_seconds dt =
     ((int (ymd2ord (year dt) (month dt) (day dt)) * 24 + int (hour dt)) * 60 + int (minute dt)) * 60
     + int (second dt)"

text \<open>\<open>datetime.now()\<close> at POSIX second \<open>timet\<close> with \<open>us\<close> microseconds:
  \<open>datetime_from_timet_and_us\<close> with \<open>tzinfo = None\<close>.\<close>

definition datetime_now :: "utcoffset \<Rightarrow> int \<Rightarrow> nat \<Rightarrow> pyexc + datetime" where
  "datetime_now tz timet us =
     (case localtime tz timet of
        Inl e \<Rightarrow> Inl e
      | Inr dt \<Rightarrow>
          (let result_seconds = utc_to_seconds dt in
           case localtime tz (timet - max_fold_seconds) of
             Inl e \<Rightarrow> Inl e
           | Inr probe \<Rightarrow>
               (let transition = result_seconds - utc_to_seconds probe - max_fold_seconds in
                if transition < 0 then
                  (case localtime tz (timet + transition) of
                     Inl e \<Rightarrow> Inl e
                   | Inr probe2 \<Rightarrow>
                       Inr (dt\<lparr>microsecond := us, dt_fold := (utc_to_seconds probe2 = result_seconds)\<rparr>))
                else Inr (dt\<lparr>microsecond := us\<rparr>))))"

text \<open>The first local second of year 10000, counted as \<open>local_secs\<close> counts.\<close>

definition LOCAL_SECS_MAX :: int where "LOCAL_SECS_MAX = 3652059 * 86400"

text \<open>Central European time around the end of summer time on 2024-10-27, at
  01:00 UTC (03:00 CEST becomes 02:00 CET), and the reading 02:30 of that night.\<close>

definition cet_zone :: utcoffset where
  "cet_zone u = (if u < 1729990800 then 7200 else 3600)"

definition dst_clock :: datetime where
  "dst_clock = \<lparr>year = 2024, month = 10, day = 27, hour = 2, minute = 30, second = 0,
     microsecond = 0, dt_fold = False\<rparr>"

section \<open>Lemmas\<close>

lemma sod_split: "(sod::nat) div 3600 * 3600 + sod mod 3600 div 60 * 60 + sod mod 60 = sod"
proof -
  have "sod mod 3600 mod 60 = sod mod 60" by (rule mod_mod_cancel) simp
  then have "sod mod 3600 div 60 * 60 + sod mod 60 = sod mod 3600"
    using div_mult_mod_eq [of "sod mod 3600" 60] by simp
  moreover have "sod div 3600 * 3600 + sod mod 3600 = sod" by simp
  ultimately show ?thesis by linarith
qed

lemma localtime_InrD:
  assumes "localtime tz u = Inr dt"
  shows "utc_to_seconds dt = local_secs tz u + 86400 \<and> valid_datetime dt \<and>
         microsecond dt = 0 \<and> \<not> dt_fold dt \<and> 0 \<le> local_secs tz u"
proof -
  let ?s = "local_secs tz u"
  have s0: "0 \<le> ?s" using assms by (rule_tac ccontr) (simp add: localtime_def)
  define D where "D = nat (?s div 86400)"
  define sod where "sod = nat (?s mod 86400)"
  have "0 \<le> ?s div 86400" using s0 by simp
  then have sD: "?s = int D * 86400 + int sod" using s0 unfolding D_def sod_def by simp
  have sod_lt: "sod < 86400" using s0 unfolding sod_def by simp
  obtain y m d where o: "ord2ymd (D + 1) = (y, m, d)" by (cases "ord2ymd (D + 1)") auto
  have yb: "y \<le> MAXYEAR" and dt: "dt = \<lparr>year = y, month = m, day = d, hour = sod div 3600,
      minute = sod mod 3600 div 60, second = sod mod 60, microsecond = 0, dt_fold = False\<rparr>"
    using assms s0 o unfolding localtime_def Let_def D_def [symmetric] sod_def [symmetric]
    by (auto split: if_splits)
  from ord2ymd_correct [OF _ o] have c: "ymd2ord y m d = D + 1" "1 \<le> y" "1 \<le> m" "m \<le> 12"
    "1 \<le> d" "d \<le> days_in_month y m" by simp_all
  have "utc_to_seconds dt = (int D + 1) * 86400 + int (sod div 3600 * 3600 + sod mod 3600 div 60 * 60 + sod mod 60)"
    unfolding dt utc_to_seconds_def by (simp add: c(1) algebra_simps)
  then have u: "utc_to_seconds dt = ?s + 86400" unfolding sod_split sD by simp
  have h: "sod div 3600 < 24" using sod_lt by (simp add: div_less_iff_less_mult)
  have mi: "sod mod 3600 div 60 < 60" by (simp add: div_less_iff_less_mult)
  have "valid_datetime dt"
    using c yb h mi unfolding dt by (simp add: valid_datetime_def valid_date_def MINYEAR_def)
  with u s0 dt show ?thesis by simp
qed

lemma days_before_year_10000: "days_before_year 10000 = 3652059"
  by (simp add: days_before_year_def)

lemma ord2ymd_year_bound:
  assumes "1 \<le> n" "n \<le> 3652059" "ord2ymd n = (y, m, d)"
  shows "y \<le> MAXYEAR"
proof (rule ccontr)
  assume "\<not> y \<le> MAXYEAR"
  then have y: "10000 \<le> y" by (simp add: MAXYEAR_def)
  have "days_before_year 10000 \<le> days_before_year y"
  proof (cases "y = 10000")
    case False
    with y have "days_before_year 10000 + days_in_year 10000 \<le> days_before_year y"
      by (intro days_before_year_mono) simp_all
    then show ?thesis by simp
  qed simp
  moreover from ord2ymd_correct [OF assms(1,3)] have "days_before_year y < n"
    by (auto simp: ymd2ord_def)
  ultimately show False using assms(2) by (simp add: days_before_year_10000)
qed

lemma localtime_in_range:
  assumes "0 \<le> local_secs tz u" "local_secs tz u < LOCAL_SECS_MAX"
  shows "\<exists>dt. localtime tz u = Inr dt"
proof -
  let ?s = "local_secs tz u"
  obtain y m d where o: "ord2ymd (nat (?s div 86400) + 1) = (y, m, d)"
    by (cases "ord2ymd (nat (?s div 86400) + 1)") auto
  have "?s div 86400 < 3652059" using assms(2) by (simp add: LOCAL_SECS_MAX_def)
  then have "nat (?s div 86400) + 1 \<le> 3652059" by linarith
  from ord2ymd_year_bound [OF _ this o] have "y \<le> MAXYEAR" by simp
  with assms(1) o show ?thesis by (simp add: localtime_def Let_def)
qed

lemma localtime_cong:
  "local_secs tz u = local_secs tz' u' \<Longrightarrow> localtime tz u = localtime tz' u'"
  by (simp add: localtime_def)

lemma datetime_now_InrD:
  assumes "datetime_now tz t us = Inr dt"
  shows "\<exists>r. localtime tz t = Inr r \<and> dt = r\<lparr>microsecond := us, dt_fold := dt_fold dt\<rparr>"
  using assms unfolding datetime_now_def Let_def
  by (auto split: sum.splits if_splits)

lemma datetime_now_steady:
  assumes "localtime tz t = Inr r" "localtime tz (t - max_fold_seconds) = Inr p"
    "tz (t - max_fold_seconds) = tz t"
  shows "datetime_now tz t us = Inr (r\<lparr>microsecond := us\<rparr>)"
proof -
  have "utc_to_seconds r - utc_to_seconds p - max_fold_seconds = 0"
    using localtime_InrD [OF assms(1)] localtime_InrD [OF assms(2)] assms(3)
    by (simp add: local_secs_def)
  with assms(1,2) show ?thesis by (simp add: datetime_now_def Let_def)
qed

lemma hms_split:
  assumes "h < 24" "mi < 60" "se < 60"
  shows "(h * 3600 + mi * 60 + se) div 3600 = h" "(h * 3600 + mi * 60 + se) mod 3600 div 60 = mi"
    "(h * 3600 + mi * 60 + se) mod 60 = (se::nat)" "h * 3600 + mi * 60 + se < 86400"
proof -
  have l: "mi * 60 + se < 3600" using assms by linarith
  have e: "h * 3600 + mi * 60 + se = (mi * 60 + se) + 3600 * h" by simp
  then show "(h * 3600 + mi * 60 + se) div 3600 = h"
    using l by (simp add: div_mult_self2)
  have "(h * 3600 + mi * 60 + se) mod 3600 = mi * 60 + se"
    using l by (subst e) (simp only: mod_mult_self2 mod_less)
  moreover have "(se + 60 * mi) div 60 = mi" using assms by (simp add: div_mult_self2)
  ultimately show "(h * 3600 + mi * 60 + se) mod 3600 div 60 = mi" by (simp add: add.commute)
  have "h * 3600 + mi * 60 + se = se + 60 * (h * 60 + mi)" by simp
  then show "(h * 3600 + mi * 60 + se) mod 60 = se"
    using assms by (simp only: mod_mult_self2 mod_less)
  show "h * 3600 + mi * 60 + se < 86400" using assms by linarith
qed

lemma localtime_of_datetime:
  assumes "valid_datetime dt" "microsecond dt = 0" "\<not> dt_fold dt"
    "local_secs tz u + 86400 = utc_to_seconds dt"
  shows "localtime tz u = Inr dt"
proof -
  let ?o = "ymd2ord (year dt) (month dt) (day dt)"
  let ?sod = "hour dt * 3600 + minute dt * 60 + second dt"
  have v: "cal_valid (year dt) (month dt) (day dt)" "year dt \<le> MAXYEAR"
    "hour dt < 24" "minute dt < 60" "second dt < 60"
    using assms(1) by (simp_all add: valid_datetime_def valid_date_def cal_valid_def MINYEAR_def)
  note hms = hms_split [OF v(3-5)]
  have o1: "1 \<le> ?o" using v(1) by (simp add: ymd2ord_def cal_valid_def)
  have "utc_to_seconds dt = int ?o * 86400 + int ?sod"
    by (simp add: utc_to_seconds_def algebra_simps)
  with assms(4) have s: "local_secs tz u = int (?o - 1) * 86400 + int ?sod" using o1
    by (simp add: of_nat_diff algebra_simps)
  then have s0: "0 \<le> local_secs tz u" by simp
  have dv: "local_secs tz u div 86400 = int (?o - 1)" "local_secs tz u mod 86400 = int ?sod"
    unfolding s using hms(4) by simp_all
  have "nat (local_secs tz u div 86400) + 1 = ?o" unfolding dv using o1 by simp
  then have o: "ord2ymd (nat (local_secs tz u div 86400) + 1) = (year dt, month dt, day dt)"
    using ord2ymd_ymd2ord [OF v(1)] by simp
  have sodn: "nat (local_secs tz u mod 86400) = ?sod" unfolding dv by (rule nat_int)
  show ?thesis
    using s0 v(2) assms(2,3) unfolding localtime_def Let_def o sodn hms(1-3)
    by (cases dt) (simp add: not_less)
qed

lemma localtime_InrD_bound:
  assumes "localtime tz u = Inr dt"
  shows "local_secs tz u < LOCAL_SECS_MAX"
proof -
  from localtime_InrD [OF assms] have u: "utc_to_seconds dt = local_secs tz u + 86400"
    and v: "valid_datetime dt" by simp_all
  have c: "cal_valid (year dt) (month dt) (day dt)" and y: "year dt \<le> 9999"
    using v by (simp_all add: valid_datetime_def valid_date_def cal_valid_def MINYEAR_def MAXYEAR_def)
  have "ymd2ord (year dt) (month dt) (day dt) \<le> days_before_year (year dt) + days_in_year (year dt)"
    using day_of_year_bounds (2) [OF c] by (simp add: ymd2ord_def)
  also have "\<dots> \<le> days_before_year 10000"
  proof (cases "year dt = 9999")
    case True
    then show ?thesis by (simp add: days_before_year_def days_in_year_def is_leap_def)
  next
    case False
    with y c show ?thesis by (intro days_before_year_mono) (simp_all add: cal_valid_def)
  qed
  finally have o: "ymd2ord (year dt) (month dt) (day dt) \<le> 3652059" by (simp add: days_before_year_10000)
  have "hour dt * 3600 + minute dt * 60 + second dt < 86400"
    using v by (intro hms_split (4)) (simp_all add: valid_datetime_def)
  moreover have "utc_to_seconds dt = int (ymd2ord (year dt) (month dt) (day dt)) * 86400 +
      int (hour dt * 3600 + minute dt * 60 + second dt)"
    by (simp add: utc_to_seconds_def algebra_simps)
  ultimately show ?thesis using u o by (simp add: LOCAL_SECS_MAX_def)
qed

lemma datetime_now_probe:
  "datetime_now tz t us = Inr dt \<Longrightarrow> \<exists>p. localtime tz (t - max_fold_seconds) = Inr p"
  unfolding datetime_now_def Let_def by (auto split: sum.splits if_splits)

lemma localtime_to_second:
  "localtime tz u = Inr r \<Longrightarrow> to_second (r\<lparr>microsecond := us, dt_fold := f\<rparr>) = r"
  using localtime_InrD [of tz u r] by (cases r) (simp add: to_second_def)

lemma fixed_offset_name_inj:
  assumes "datetime_now (\<lambda>_. off) t1 u1 = Inr d1" "datetime_now (\<lambda>_. off) t2 u2 = Inr d2"
    "generate_output_filename p d1 = generate_output_filename p d2"
  shows "t1 = t2"
proof -
  obtain r1 where r1: "localtime (\<lambda>_. off) t1 = Inr r1" and d1: "d1 = r1\<lparr>microsecond := u1, dt_fold := dt_fold d1\<rparr>"
    using datetime_now_InrD [OF assms(1)] by blast
  obtain r2 where r2: "localtime (\<lambda>_. off) t2 = Inr r2" and d2: "d2 = r2\<lparr>microsecond := u2, dt_fold := dt_fold d2\<rparr>"
    using datetime_now_InrD [OF assms(2)] by blast
  have n: "generate_output_filename p d = generate_output_filename p r"
    if "localtime (\<lambda>_. off) t = Inr r" "d = r\<lparr>microsecond := u, dt_fold := f\<rparr>" for t r d u f
    using generate_output_filename_to_second [of p d] localtime_to_second [OF that(1)] that(2) by simp
  have "generate_output_filename p r1 = generate_output_filename p r2"
    using assms(3) n [OF r1 d1] n [OF r2 d2] by simp
  then have "Some (p, to_second r1) = Some (p, to_second r2)"
    using parse_generate_output_filename localtime_InrD [OF r1] localtime_InrD [OF r2] by metis
  then have "r1 = r2"
    using localtime_InrD [OF r1] localtime_InrD [OF r2]
    by (cases r1, cases r2) (simp add: to_second_def)
  then show ?thesis
    using localtime_InrD [OF r1] localtime_InrD [OF r2] by (simp add: local_secs_def)
qed

section \<open>Properties of datetime.now()\<close>

text \<open>C17 (one name per second at a fixed UTC offset): in a zone whose offset never
  changes, two calls of \<open>generate_output_filename\<close> at different seconds produce
  different names.\<close>

theorem fixed_offset_names_unique:
  assumes "datetime_now (\<lambda>_. off) t1 u1 = Inr d1" "datetime_now (\<lambda>_. off) t2 u2 = Inr d2"
    "generate_output_filename p d1 = generate_output_filename p d2"
  shows "t1 = t2"
  using assms by (rule fixed_offset_name_inj)

text \<open>C18 (the repeated hour when summer time ends): when the clock is set back by an
  hour between the instants \<open>t\<close> and \<open>t + 3600\<close> (and was steady the day before),
  \<open>datetime.now()\<close> returns at \<open>t + 3600\<close> the reading it returned at \<open>t\<close>,
  told apart only by \<open>fold = 1\<close>, and the output file names of the two instants are
  equal: the second run writes over the first run's file.\<close>

theorem dst_fold_collision:
  assumes now: "datetime_now tz t us = Inr d"
    and steady: "tz (t - max_fold_seconds) = tz t"
    and setback: "tz (t + 3600) = tz t - 3600"
    and prior: "tz (t + 3600 - max_fold_seconds) = tz t"
  shows "\<not> dt_fold d \<and> datetime_now tz (t + 3600) us = Inr (d\<lparr>dt_fold := True\<rparr>) \<and>
         generate_output_filename p (d\<lparr>dt_fold := True\<rparr>) = generate_output_filename p d"
proof -
  obtain r where r: "localtime tz t = Inr r" using datetime_now_InrD [OF now] by blast
  obtain pr where pr: "localtime tz (t - max_fold_seconds) = Inr pr"
    using datetime_now_probe [OF now] by blast
  have d: "d = r\<lparr>microsecond := us\<rparr>" using datetime_now_steady [OF r pr steady] now by simp
  have rf: "\<not> dt_fold r" "utc_to_seconds r = local_secs tz t + 86400" using localtime_InrD [OF r] by simp_all
  have r2: "localtime tz (t + 3600) = Inr r"
    using r localtime_cong [of tz "t + 3600" tz t] setback by (simp add: local_secs_def)
  have ls: "local_secs tz (t + 3600 - max_fold_seconds) = local_secs tz (t - max_fold_seconds) + 3600"
    "local_secs tz (t + 3600 - max_fold_seconds) = local_secs tz t - 82800"
    using steady prior by (simp_all add: local_secs_def max_fold_seconds_def)
  have "0 \<le> local_secs tz (t - max_fold_seconds)" using localtime_InrD [OF pr] by simp
  moreover have "local_secs tz t < LOCAL_SECS_MAX" by (rule localtime_InrD_bound [OF r])
  ultimately obtain q where q: "localtime tz (t + 3600 - max_fold_seconds) = Inr q"
    using localtime_in_range [of tz "t + 3600 - max_fold_seconds"] ls by auto
  have tr: "utc_to_seconds r - utc_to_seconds q - max_fold_seconds = -3600"
    using localtime_InrD [OF q] rf ls by (simp add: max_fold_seconds_def)
  have "datetime_now tz (t + 3600) us = Inr (r\<lparr>microsecond := us, dt_fold := True\<rparr>)"
    using r2 q tr r by (simp add: datetime_now_def Let_def)
  moreover have "generate_output_filename p (d\<lparr>dt_fold := True\<rparr>) = generate_output_filename p d"
    using generate_output_filename_to_second [of p "d\<lparr>dt_fold := True\<rparr>"]
      generate_output_filename_to_second [of p d] by (simp add: to_second_def)
  ultimately show ?thesis using d rf by simp
qed

section \<open>Witnesses\<close>

text \<open>In UTC, the readings of the first minute of 2025.\<close>

lemma utc_clock_second:
  assumes "s < 60"
  shows "datetime_now (\<lambda>_. 0) (1735732800 + int s) 0 = Inr (spec_clock\<lparr>second := s\<rparr>)"
proof -
  have r: "localtime (\<lambda>_. 0) (1735732800 + int s) = Inr (spec_clock\<lparr>second := s\<rparr>)"
    by (rule localtime_of_datetime)
      (use assms in \<open>simp_all add: spec_clock_def valid_datetime_unfold local_secs_def EPOCH_ORDINAL_def
        utc_to_seconds_def ymd2ord_def days_before_year_def days_before_month_def DAYS_BEFORE_MONTH_def\<close>)
  have p: "localtime (\<lambda>_. 0) (1735732800 + int s - max_fold_seconds) =
      Inr (spec_clock\<lparr>year := 2024, month := 12, day := 31, second := s\<rparr>)"
    by (rule localtime_of_datetime)
      (use assms in \<open>simp_all add: spec_clock_def valid_datetime_unfold local_secs_def EPOCH_ORDINAL_def
        max_fold_seconds_def utc_to_seconds_def ymd2ord_def days_before_year_def days_before_month_def
        DAYS_BEFORE_MONTH_def\<close>)
  show ?thesis using datetime_now_steady [OF r p] by (simp add: spec_clock_def)
qed

lemma utc_clock_now: "datetime_now (\<lambda>_. 0) 1735732800 0 = Inr spec_clock"
  using utc_clock_second [of 0] by (simp add: spec_clock_def)

lemma utc_clock_next: "datetime_now (\<lambda>_. 0) 1735732801 0 = Inr (spec_clock\<lparr>second := 1\<rparr>)"
  using utc_clock_second [of 1] by simp

theorem fixed_offset_names_unique_witness:
  "datetime_now (\<lambda>_. 0) 1735732800 0 = Inr spec_clock \<and>
   generate_output_filename ''extract'' spec_clock = generate_output_filename ''extract'' spec_clock \<and>
   (1735732800::int) = 1735732800"
  using fixed_offset_names_unique [OF utc_clock_now utc_clock_now refl] utc_clock_now by simp

theorem dst_fold_collision_witness:
  "datetime_now cet_zone 1729989000 0 = Inr dst_clock \<and>
   datetime_now cet_zone (1729989000 + 3600) 0 = Inr (dst_clock\<lparr>dt_fold := True\<rparr>) \<and>
   generate_output_filename ''extract'' (dst_clock\<lparr>dt_fold := True\<rparr>) = ''extract_20241027_023000.nc'' \<and>
   generate_output_filename ''extract'' dst_clock = ''extract_20241027_023000.nc''"
proof -
  have r: "localtime cet_zone 1729989000 = Inr dst_clock"
    by (rule localtime_of_datetime)
      (simp_all add: dst_clock_def cet_zone_def valid_datetime_unfold local_secs_def EPOCH_ORDINAL_def
        utc_to_seconds_def ymd2ord_def days_before_year_def days_before_month_def DAYS_BEFORE_MONTH_def)
  have p: "localtime cet_zone (1729989000 - max_fold_seconds) = Inr (dst_clock\<lparr>day := 26\<rparr>)"
    by (rule localtime_of_datetime)
      (simp_all add: dst_clock_def cet_zone_def valid_datetime_unfold local_secs_def EPOCH_ORDINAL_def
        max_fold_seconds_def utc_to_seconds_def ymd2ord_def days_before_year_def days_before_month_def
        DAYS_BEFORE_MONTH_def)
  have z: "cet_zone (1729989000 - max_fold_seconds) = cet_zone 1729989000"
    "cet_zone (1729989000 + 3600) = cet_zone 1729989000 - 3600"
    "cet_zone (1729989000 + 3600 - max_fold_seconds) = cet_zone 1729989000"
    by (simp_all add: cet_zone_def max_fold_seconds_def)
  have now: "datetime_now cet_zone 1729989000 0 = Inr dst_clock"
    using datetime_now_steady [OF r p z(1)] by (simp add: dst_clock_def)
  have name: "generate_output_filename ''extract'' dst_clock = ''extract_20241027_023000.nc''"
    by (simp add: dst_clock_def generate_output_filename_def directive_def zpad_def dec.simps digit_chr_table)
  show ?thesis
    using dst_fold_collision [OF now z, of "''extract''"] now name by simp
qed
end
