(* ===== verification/Logging.thy ===== *)
theory Logging
  imports World Filename "HOL-Library.Sublist"
begin

text \<open>
  What the handler installed by \<open>logging.basicConfig\<close> (src/cdsAPI.py, lines 17--20)
  writes for each record the script logs (lines 55, 58, 60, 67, 69): Python's
  \<open>logging.Formatter\<close> with the \<open>%\<close>-style format of line 19. \<open>Formatter.format\<close>
  sets \<open>record.message\<close>, sets \<open>record.asctime\<close> from the creation time when the
  format mentions \<open>%(asctime)\<close> (\<open>formatTime\<close>: \<open>%Y-%m-%d %H:%M:%S\<close> and
  \<open>,%03d\<close> milliseconds), and applies \<open>fmt % record.__dict__\<close>; the stream handler
  adds a newline. The creation time (\<open>time.localtime(record.created)\<close>) and the
  milliseconds are inputs, as is the \<open>repr\<close> of \<open>record.__dict__\<close>. The
  \<open>%\<close> operator is modelled for mappings whose values are strings: keys with nested
  parentheses, flags, width, precision, length modifiers, the conversions
  \<open>s r a c %\<close>, and the errors of the other conversions and of \<open>*\<close>. The record
  attributes modelled are those the format can name by a string value (\<open>name\<close>,
  \<open>msg\<close>, \<open>levelname\<close>, \<open>levelno\<close>, \<open>message\<close>, \<open>asctime\<close>); the check
  \<open>Formatter.validate\<close> makes on the format at configuration time is not modelled.
  The lemmas show the shape of every line the script writes and that time stamp,
  level and message can be read back from such a line.
\<close>

section \<open>printf-style formatting with a mapping\<close>

text \<open>\<open>format % mapping\<close> (\<open>PyUnicode_Format\<close>) when every value of the mapping is a
  string, as the attributes a logging format names are. A conversion
  \<open>%[(key)][flags][width][.precision][length]type\<close> is read from left to right: the
  key, up to the \<open>)\<close> that balances its \<open>(\<close>, is looked up at once (a missing key
  raises \<open>KeyError\<close>); the flags \<open>-+ #0\<close>, the width and precision (a \<open>*\<close> asks
  for an \<open>int\<close> argument, which a mapping cannot give), and a length modifier \<open>hlL\<close>
  follow. A conversion without a key takes the mapping itself as its argument, once;
  \<open>mapping_repr\<close> is its \<open>repr\<close>. Exception messages are abbreviated.\<close>

definition value_error :: "string \<Rightarrow> pyexc" where
  "value_error msg = PyException ''ValueError'' msg"

definition type_error :: "string \<Rightarrow> pyexc" where
  "type_error msg = PyException ''TypeError'' msg"

text \<open>The key of \<open>%(key)\<close>: the characters up to the \<open>)\<close> that closes the first
  \<open>(\<close>, nested parentheses included; \<open>depth\<close> counts the open ones.\<close>

fun scan_key :: "nat \<Rightarrow> string \<Rightarrow> string \<Rightarrow> (string \<times> string) option" where
  "scan_key depth acc [] = None"
| "scan_key depth acc (c # cs) =
     (if c = CHR '')'' then (if depth = 0 then Some (rev acc, cs) else scan_key (depth - 1) (c # acc) cs)
      else if c = CHR ''('' then scan_key (Suc depth) (c # acc) cs
      else scan_key depth (c # acc) cs)"

definition parse_key :: "string \<Rightarrow> pyexc + string option \<times> string" where
  "parse_key cs =
     (case cs of
        c # rest \<Rightarrow>
          if c = CHR ''('' then
            (case scan_key 0 [] rest of
               None \<Rightarrow> Inl (value_error ''incomplete format key'')
             | Some (k, rest') \<Rightarrow> Inr (Some k, rest'))
          else Inr (None, cs)
      | [] \<Rightarrow> Inr (None, cs))"

text \<open>Flags, width, precision, length modifier and the conversion character.\<close>

definition is_flag :: "char \<Rightarrow> bool" where
  "is_flag c \<longleftrightarrow> c \<in> set ''-+ #0''"

definition parse_number :: "string \<Rightarrow> pyexc + nat option \<times> string" where
  "parse_number cs =
     (if cs \<noteq> [] \<and> hd cs = CHR ''*'' then Inl (type_error ''* wants int'')
      else if takeWhile is_digit cs = [] then Inr (None, cs)
      else Inr (Some (read_digits (takeWhile is_digit cs)), dropWhile is_digit cs))"

definition parse_rest :: "string \<Rightarrow> pyexc + (string \<times> nat option \<times> nat option \<times> char \<times> string)" where
  "parse_rest cs =
     (let flags = takeWhile is_flag cs; r1 = dropWhile is_flag cs in
      case parse_number r1 of
        Inl e \<Rightarrow> Inl e
      | Inr (width, r2) \<Rightarrow>
          (case (if r2 \<noteq> [] \<and> hd r2 = CHR ''.'' then
                   (case parse_number (tl r2) of
                      Inl e \<Rightarrow> Inl e
                    | Inr (p, r') \<Rightarrow> Inr (Some (case p of None \<Rightarrow> 0 | Some n \<Rightarrow> n), r'))
                 else Inr (None, r2)) of
             Inl e \<Rightarrow> Inl e
           | Inr (prec, r3) \<Rightarrow>
               (let r4 = (case r3 of c # r \<Rightarrow> if c \<in> set ''hlL'' then r else r3 | [] \<Rightarrow> []) in
                case r4 of
                  [] \<Rightarrow> Inl (value_error ''incomplete format'')
                | conv # r5 \<Rightarrow> Inr (flags, width, prec, conv, r5))))"

text \<open>\<open>repr\<close> and \<open>ascii\<close> of a string of code points below 256: the quote is
  \<open>"\<close> when the string has a \<open>'\<close> and no \<open>"\<close>; the quote and the backslash are
  escaped, tab, newline and carriage return by name, the other non-printable characters
  (controls, 0x7F--0xA0, the soft hyphen 0xAD) as \<open>\xhh\<close>; \<open>ascii\<close> also escapes
  every character above 0x7F.\<close>

definition hex_digit :: "nat \<Rightarrow> char" where
  "hex_digit n = (if n < 10 then digit_chr n else char_of (87 + n))"

definition hex_escape :: "char \<Rightarrow> string" where
  "hex_escape c = [CHR 0x5C, CHR ''x'', hex_digit (of_char c div 16), hex_digit (of_char c mod 16)]"

definition printable :: "char \<Rightarrow> bool" where
  "printable c \<longleftrightarrow> (let n = of_char c :: nat in (32 \<le> n \<and> n \<le> 126) \<or> (161 \<le> n \<and> n \<noteq> 173))"

definition repr_char :: "char \<Rightarrow> char \<Rightarrow> string" where
  "repr_char q c =
     (if c = q \<or> c = CHR 0x5C then [CHR 0x5C, c]
      else if c = CHR 0x09 then [CHR 0x5C, CHR ''t'']
      else if c = CHR 0x0A then [CHR 0x5C, CHR ''n'']
      else if c = CHR 0x0D then [CHR 0x5C, CHR ''r'']
      else if printable c then [c]
      else hex_escape c)"

definition py_repr :: "string \<Rightarrow> string" where
  "py_repr s =
     (let q = (if CHR 0x27 \<in> set s \<and> CHR 0x22 \<notin> set s then CHR 0x22 else CHR 0x27)
      in q # concat (map (repr_char q) s) @ [q])"

definition ascii_escape :: "string \<Rightarrow> string" where
  "ascii_escape s = concat (map (\<lambda>c. if of_char c < (128::nat) then [c] else hex_escape c) s)"

text \<open>The argument of a conversion: the value of its key, or the mapping.\<close>

datatype fmt_arg = ArgStr string | ArgMapping

text \<open>One conversion: the text before width and precision are applied, or the
  exception. \<open>s\<close>, \<open>r\<close> and \<open>a\<close> give \<open>str\<close>, \<open>repr\<close> and \<open>ascii\<close>; \<open>c\<close> takes
  a string of length one; the numeric conversions need a number.\<close>

definition convert :: "char \<Rightarrow> fmt_arg \<Rightarrow> string \<Rightarrow> pyexc + string" where
  "convert conv arg mapping_repr =
     (if conv = CHR ''s'' then Inr (case arg of ArgStr v \<Rightarrow> v | ArgMapping \<Rightarrow> mapping_repr)
      else if conv = CHR ''r'' then Inr (case arg of ArgStr v \<Rightarrow> py_repr v | ArgMapping \<Rightarrow> mapping_repr)
      else if conv = CHR ''a'' then
        Inr (ascii_escape (case arg of ArgStr v \<Rightarrow> py_repr v | ArgMapping \<Rightarrow> mapping_repr))
      else if conv = CHR ''c'' then
        (case arg of
           ArgStr v \<Rightarrow> if length v = 1 then Inr v
                       else Inl (type_error ''%c requires an int or a unicode character'')
         | ArgMapping \<Rightarrow> Inl (type_error ''%c requires an int or a unicode character''))
      else if conv \<in> set ''diuoxXeEfFgG'' then Inl (type_error (CHR ''%'' # conv # '' format: a number is required''))
      else Inl (value_error ''unsupported format character''))"

text \<open>Precision cuts \<open>s\<close>, \<open>r\<close> and \<open>a\<close>; the width pads with spaces, on the right
  under the \<open>-\<close> flag.\<close>

definition apply_width :: "string \<Rightarrow> nat option \<Rightarrow> nat option \<Rightarrow> char \<Rightarrow> string \<Rightarrow> string" where
  "apply_width flags width prec conv s =
     (let s1 = (case prec of Some p \<Rightarrow> if conv \<in> set ''sra'' then take p s else s | None \<Rightarrow> s);
          pad = (case width of Some w \<Rightarrow> replicate (w - length s1) (CHR '' '') | None \<Rightarrow> [])
      in if CHR ''-'' \<in> set flags then s1 @ pad else pad @ s1)"

lemma scan_key_length: "scan_key d acc cs = Some (k, r) \<Longrightarrow> length r < length cs"
  by (induction d acc cs rule: scan_key.induct) (auto split: if_splits)

lemma parse_key_length: "parse_key cs = Inr (k, r) \<Longrightarrow> length r \<le> length cs"
  by (auto simp: parse_key_def split: list.splits if_splits option.splits prod.splits
      dest!: scan_key_length)

lemma parse_number_length: "parse_number cs = Inr (n, r) \<Longrightarrow> length r \<le> length cs"
  by (auto simp: parse_number_def length_dropWhile_le split: list.splits if_splits)

lemma parse_rest_length: "parse_rest cs = Inr (fl, w, p, c, r) \<Longrightarrow> length r < length cs"
proof -
  assume a: "parse_rest cs = Inr (fl, w, p, c, r)"
  have d: "length (dropWhile is_flag cs) \<le> length cs" by (rule length_dropWhile_le)
  show ?thesis
    using a d
    by (auto simp: parse_rest_def Let_def split: sum.splits prod.splits list.splits if_splits
        dest!: parse_number_length)
qed

function pct_format :: "string \<Rightarrow> (string \<Rightarrow> string option) \<Rightarrow> string \<Rightarrow> bool \<Rightarrow> pyexc + string" where
  "pct_format [] vals mapping_repr used = Inr []"
| "pct_format (c # cs) vals mapping_repr used =
     (if c \<noteq> CHR ''%'' then map_sum id (Cons c) (pct_format cs vals mapping_repr used)
      else (case parse_key cs of
              Inl e \<Rightarrow> Inl e
            | Inr (key, r1) \<Rightarrow>
                (case (case key of None \<Rightarrow> Inr None
                        | Some k \<Rightarrow> (case vals k of None \<Rightarrow> Inl (PyException ''KeyError'' k)
                                    | Some v \<Rightarrow> Inr (Some v))) of
                   Inl e \<Rightarrow> Inl e
                 | Inr value \<Rightarrow>
                     (case parse_rest r1 of
                        Inl e \<Rightarrow> Inl e
                      | Inr (flags, width, prec, conv, r2) \<Rightarrow>
                          if conv = CHR ''%'' then map_sum id (Cons CHR ''%'') (pct_format r2 vals mapping_repr used)
                          else if value = None \<and> used then Inl (type_error ''not enough arguments for format string'')
                          else (case convert conv (case value of None \<Rightarrow> ArgMapping | Some v \<Rightarrow> ArgStr v) mapping_repr of
                                  Inl e \<Rightarrow> Inl e
                                | Inr s \<Rightarrow> map_sum id (append (apply_width flags width prec conv s))
                                            (pct_format r2 vals mapping_repr (used \<or> value = None)))))))"
  by pat_completeness auto
termination
  by (relation "measure (\<lambda>(s, _). length s)") (auto dest!: parse_key_length parse_rest_length)

section \<open>The formatter\<close>

text \<open>\<open>PercentStyle.usesTime\<close>: the format mentions \<open>%(asctime)\<close>.\<close>

definition uses_time :: "string \<Rightarrow> bool" where
  "uses_time fmt \<longleftrightarrow> sublist ''%(asctime)'' fmt"

text \<open>\<open>Formatter.formatTime\<close> with no \<open>datefmt\<close>: the default time format and
  the milliseconds, \<open>'%s,%03d' % (s, record.msecs)\<close>.\<close>

definition format_time :: "datetime \<Rightarrow> nat \<Rightarrow> string" where
  "format_time ct msecs = strftime ''%Y-%m-%d %H:%M:%S'' ct @ '','' @ zpad 3 msecs"

text \<open>The attributes of a root-logger record the format can name: \<open>name\<close>,
  \<open>msg\<close>, \<open>levelname\<close>, \<open>levelno\<close>, \<open>message\<close> (\<open>getMessage()\<close>: the
  script logs f-strings without arguments) and, once set, \<open>asctime\<close>. The other
  attributes of a \<open>LogRecord\<close> (path, line number, thread, ...) are not modelled.\<close>

definition record_attrs :: "log_record \<Rightarrow> string option \<Rightarrow> string \<Rightarrow> string option" where
  "record_attrs r asctime =
     map_of [(''name'', ''root''), (''msg'', rec_msg r), (''levelname'', levelname (rec_level r)),
             (''levelno'', dec (levelno (rec_level r))), (''message'', rec_msg r)]
     ++ (case asctime of None \<Rightarrow> Map.empty | Some a \<Rightarrow> [''asctime'' \<mapsto> a])"

text \<open>\<open>Formatter.format\<close> (no exception or stack information is attached by
  the script's calls) through \<open>PercentStyle.format\<close>, which turns the
  \<open>KeyError\<close> of a missing field into \<open>ValueError\<close> (Python 3.8 and later).
  \<open>dict_repr\<close> is the \<open>repr\<close> of \<open>record.__dict__\<close>, which a conversion
  without a key prints.\<close>

definition format_record :: "string \<Rightarrow> datetime \<Rightarrow> nat \<Rightarrow> string \<Rightarrow> log_record \<Rightarrow> pyexc + string" where
  "format_record fmt ct msecs dict_repr r =
     (case pct_format fmt (record_attrs r (if uses_time fmt then Some (format_time ct msecs) else None))
             dict_repr False of
        Inl (PyException n k) \<Rightarrow>
          if n = ''KeyError'' then Inl (value_error (''Formatting field not found in record: '' @ py_repr k))
          else Inl (PyException n k)
      | Inl e \<Rightarrow> Inl e
      | Inr s \<Rightarrow> Inr s)"

text \<open>\<open>StreamHandler.emit\<close>: the formatted record and the terminator.\<close>

definition emit_line :: "string \<Rightarrow> datetime \<Rightarrow> nat \<Rightarrow> string \<Rightarrow> log_record \<Rightarrow> pyexc + string" where
  "emit_line fmt ct msecs dict_repr r = map_sum id (\<lambda>s. s @ ''\<newline>'') (format_record fmt ct msecs dict_repr r)"

text \<open>Reading a line of the script's log back: the time stamp, the level and the
  message (a reader of the log, written from the format string).\<close>

definition all_levels :: "level list" where
  "all_levels = [DEBUG, INFO, WARNING, ERROR, CRITICAL]"

definition parse_log_line :: "string \<Rightarrow> (string \<times> level \<times> string) option" where
  "parse_log_line s =
     (if 26 \<le> length s \<and> take 3 (drop 23 s) = '' - '' then
        (case filter (\<lambda>l. prefix (levelname l @ '' - '') (drop 26 s)) all_levels of
           [] \<Rightarrow> None
         | l # _ \<Rightarrow> Some (take 23 s, l, drop (26 + length (levelname l) + 3) s))
      else None)"

section \<open>Lemmas\<close>

lemma levelname_prefix:
  "prefix (levelname l @ '' - '') (levelname l' @ '' - '' @ m) \<longleftrightarrow> l = l'"
  by (cases l; cases l') simp_all

lemma uses_time_log_format: "uses_time log_format"
  unfolding uses_time_def log_format_def sublist_def
  by (rule exI [of _ "[]"], rule exI [of _ "''s - %(levelname)s - %(message)s''"]) simp

lemma format_time_length:
  assumes "valid_datetime ct" "msecs < 1000"
  shows "length (format_time ct msecs) = 23"
  using valid_datetime_bounds [OF assms(1)] assms(2)
  by (simp add: format_time_def directive_def length_zpad)

lemma log_format_simps:
  "log_format = ''%(asctime)s - %(levelname)s - %(message)s''"
  "parse_key ''(asctime)s - %(levelname)s - %(message)s'' = Inr (Some ''asctime'', ''s - %(levelname)s - %(message)s'')"
  "parse_key ''(levelname)s - %(message)s'' = Inr (Some ''levelname'', ''s - %(message)s'')"
  "parse_key ''(message)s'' = Inr (Some ''message'', ''s'')"
  "parse_rest (CHR ''s'' # cs) = Inr ([], None, None, CHR ''s'', cs)"
  by (simp_all add: log_format_def parse_key_def parse_rest_def parse_number_def is_flag_def is_digit_def)

section \<open>Properties of the log lines\<close>

text \<open>C19 (every line of the script's log): with the format of line 19, formatting a
  record never fails and gives the time stamp, the level name and the message
  separated by \<open>" - "\<close>.\<close>

theorem log_line_shape:
  "format_record log_format ct msecs d r =
     Inr (format_time ct msecs @ '' - '' @ levelname (rec_level r) @ '' - '' @ rec_msg r)"
  unfolding format_record_def using uses_time_log_format
  by (simp add: log_format_simps record_attrs_def convert_def apply_width_def)

text \<open>C20 (a line can be read back): for a valid local time and milliseconds below
  1000, the line the formatter of line 19 writes for a record gives back its time
  stamp, its level and its message, whatever the message contains.\<close>

theorem log_line_roundtrip:
  assumes "valid_datetime ct" "msecs < 1000"
    and "format_record log_format ct msecs d r = Inr line"
  shows "parse_log_line line = Some (format_time ct msecs, rec_level r, rec_msg r)"
proof -
  let ?a = "format_time ct msecs"
  have line: "line = ?a @ '' - '' @ levelname (rec_level r) @ '' - '' @ rec_msg r"
    using assms(3) uses_time_log_format unfolding format_record_def
    by (simp add: log_format_simps record_attrs_def convert_def apply_width_def)
  have l: "length ?a = 23" using assms(1,2) by (rule format_time_length)
  have f: "filter (\<lambda>l. prefix (levelname l @ '' - '') (levelname (rec_level r) @ '' - '' @ rec_msg r)) all_levels
      = [rec_level r]"
    unfolding levelname_prefix by (cases "rec_level r") (simp_all add: all_levels_def)
  have d: "drop (6 + length (levelname (rec_level r))) ('' - '' @ levelname (rec_level r) @ '' - '' @ rec_msg r)
      = rec_msg r"
    using drop_append [of "6 + length (levelname (rec_level r))" "'' - '' @ levelname (rec_level r) @ '' - ''"]
    by simp
  show ?thesis unfolding line using l f d by (simp add: parse_log_line_def)
qed

section \<open>Witnesses\<close>

lemma spec_clock_format_time: "format_time spec_clock 0 = ''2025-01-01 12:00:00,000''"
proof -
  have r: "replicate 2 (CHR ''0'') = ''00''" by (simp add: numeral_2_eq_2)
  show ?thesis
    by (simp add: format_time_def spec_clock_def directive_def zpad_def dec.simps digit_chr_table r)
qed

theorem log_line_roundtrip_witness:
  "valid_datetime spec_clock \<and> (0::nat) < 1000 \<and>
   format_record log_format spec_clock 0 ''{}'' \<lparr>rec_level = ERROR, rec_msg = ''Erro - 401''\<rparr> =
     Inr ''2025-01-01 12:00:00,000 - ERROR - Erro - 401'' \<and>
   parse_log_line ''2025-01-01 12:00:00,000 - ERROR - Erro - 401'' =
     Some (''2025-01-01 12:00:00,000'', ERROR, ''Erro - 401'')"
proof -
  have f: "format_record log_format spec_clock 0 ''{}'' \<lparr>rec_level = ERROR, rec_msg = ''Erro - 401''\<rparr> =
     Inr ''2025-01-01 12:00:00,000 - ERROR - Erro - 401''"
    using uses_time_log_format unfolding format_record_def
    by (simp add: log_format_simps record_attrs_def convert_def apply_width_def spec_clock_format_time)
  show ?thesis
    using log_line_roundtrip [OF spec_clock_valid, of 0 "''{}''" "\<lparr>rec_level = ERROR, rec_msg = ''Erro - 401''\<rparr>", OF _ f]
      spec_clock_valid f by (simp add: spec_clock_format_time)
qed

end
