(* ===== verification/Spec2Isabelle.thy ===== *)
theory Spec2Isabelle
  imports Workflow Clock Logging
begin

text \<open>
  \<^bold>\<open>A verification model of youserz/climateDataStore\<close>

  The repository is one Python script, src/cdsAPI.py. Imported, it loads a \<open>.env\<close>
  file, builds a \<open>cdsapi.Client\<close> from \<open>CDSAPI_URL\<close>/\<open>CDSAPI_KEY\<close> and
  configures logging (lines 9--20). Run, its \<open>__main__\<close> block (lines 73--78) builds
  a fixed ERA5 request (\<open>get_request_params\<close>, lines 28--51), names the output file
  from the clock (\<open>generate_output_filename\<close>, lines 23--25), asks the Climate Data
  Store for the data (\<open>extract_data\<close>, lines 54--61) and opens the downloaded NetCDF
  file to log a summary (\<open>preview_dataset\<close>, lines 64--70). Each step logs; the two
  steps that touch the outside world log an \<open>Exception\<close> and re-raise it.

  \<^bold>\<open>Theories.\<close>
  \<^item> \<open>Prelude\<close>: decimal rendering (\<open>dec\<close> is \<open>str\<close> of a natural, \<open>zpad\<close>
    the \<open>%0wd\<close> conversion), the digit reader \<open>parse_nat\<close> and their inverse laws,
    collected in \<open>fmt_simps\<close>; byte and path types.
  \<^item> \<open>Datetime\<close>: the \<open>datetime\<close> record (with PEP 495's \<open>fold\<close>), the
    calendar (\<open>is_leap\<close>, \<open>days_in_month\<close>), the constructor's range check
    \<open>valid_datetime\<close>, and \<open>strftime\<close> for the directives of line 24.
  \<^item> \<open>Calendar\<close>: CPython's day ordinals (\<open>days_before_year\<close>,
    \<open>days_before_month\<close>, \<open>ymd2ord\<close>) and their inverse \<open>ord2ymd\<close> with its
    400/100/4/1-year cycles and month estimate, with the lemmas \<open>Clock\<close> needs
    (\<open>ord2ymd_correct\<close>, \<open>ord2ymd_ymd2ord\<close>).
  \<^item> \<open>Filename\<close>: \<open>generate_output_filename\<close> with the clock reading as an argument,
    and a parser \<open>parse_output_filename\<close> written from the spec's pattern, used to
    state the shape, round-trip, uniqueness and soundness claims (C8--C10, C12).
  \<^item> \<open>Clock\<close>: \<open>datetime.now()\<close> (\<open>datetime_now\<close>) from the clock's POSIX
    second and a zone (\<open>utcoffset\<close>: the UTC offset at each second): \<open>localtime\<close>
    with the year check, \<open>utc_to_seconds\<close>, and the PEP 495 fold probe a day
    (\<open>max_fold_seconds\<close>) back. At a fixed offset distinct seconds give distinct
    names (C17); when summer time ends, two instants an hour apart give the same name
    (C18).
  \<^item> \<open>PyRuntime\<close>: request values (\<open>pyval\<close>), dictionaries in insertion order
    (\<open>dict_get\<close>: a repeated key keeps its last value), exceptions (\<open>pyexc\<close>:
    \<open>Exception\<close> subclasses, and \<open>KeyboardInterrupt\<close>/\<open>SystemExit\<close>, which
    \<open>except Exception\<close> does not catch), logging levels ordered as a \<open>linorder\<close>
    instance, log records.
  \<^item> \<open>Request\<close>: \<open>get_request_params\<close>, literally; the typed request of the spec
    (\<open>era5_request\<close>, value \<open>era5_spec\<close>) with \<open>encode_request\<close>/
    \<open>decode_request\<close> and the well-formedness predicate \<open>request_wf\<close> (calendar
    dates, hours of the day, no repeats, a proper bounding box). Claim C11.
  \<^item> \<open>World\<close>: the state of the process (\<open>world\<close>: environment, \<open>.env\<close>
    entries, file system, root logger level/handler, emitted records, the clock and the
    number of readings taken); \<open>fresh_world\<close>, \<open>read_clock\<close>, \<open>load_dotenv\<close>
    (python-dotenv with \<open>override=False\<close>), \<open>client_config\<close>, \<open>basicConfig\<close>,
    \<open>log_emit\<close> (the implicit \<open>basicConfig()\<close> of \<open>logging.info\<close> on an
    unconfigured root logger, then the level filter) and the module body
    \<open>module_init\<close>. Claims C13, C14.
  \<^item> \<open>Logging\<close>: the formatter of the handler \<open>basicConfig\<close> installs:
    \<open>pct_format\<close> (\<open>format % mapping\<close> as \<open>PyUnicode_Format\<close> parses it),
    \<open>format_time\<close> (\<open>formatTime\<close>, milliseconds), \<open>format_record\<close>
    (\<open>Formatter.format\<close>), \<open>emit_line\<close>; a reader \<open>parse_log_line\<close> written
    from the format. Claims C19, C20.
  \<^item> \<open>Workflow\<close>: \<open>extract_data\<close>, \<open>preview_dataset\<close>, \<open>main\<close>,
    \<open>run_script\<close> (module body, then \<open>main\<close>) and \<open>exit_status\<close>. The service
    and the reader are parameters (\<open>'c retrieve_fn\<close>, \<open>'d open_fn\<close>): the claims
    hold for every service and reader, or for services meeting the contracts
    \<open>retrieve_writes\<close> (a retrieval that returns leaves a non-empty target) and
    \<open>retrieve_local\<close> (it writes nothing else). Test doubles (\<open>fake_retrieve\<close>,
    \<open>failing_retrieve\<close>, \<open>fake_open\<close>) serve the witnesses. Claims C1--C7.
  \<^item> This theory: \<open>two_runs\<close>, two invocations of the script sharing the file
    system (from the spec's promise of a name unique per invocation), the exit status
    of a run (C15) and the output of an earlier invocation (C16).

  \<^bold>\<open>State and effects.\<close> Every function of the script is a HOL function on the
  \<open>world\<close> record returning \<open>(pyexc + unit) \<times> world\<close>; a \<open>raise\<close> is \<open>Inl\<close>.
  \<open>datetime.now()\<close> is \<open>read_clock\<close>: the \<open>clock\<close> field is the stream of
  readings the process would see, and \<open>now_calls\<close> counts the readings taken, so a
  second call of \<open>datetime.now()\<close> would see a later reading; the claims on
  \<open>main\<close> hold for every clock. Strings are code-point lists; every character the
  script writes is below 256, so the Portuguese log messages are spelled with their code
  points (\<open>CHR 0xE7\<close> and so on).

  \<^bold>\<open>Bounds and termination.\<close> The script has no loop. The recursion of the model
  is \<open>dec\<close> (on \<open>n div 10\<close>), \<open>strftime\<close> (on the format string),
  \<open>scan_key\<close> (structural) and \<open>pct_format\<close>, a \<open>function\<close> whose termination
  is proved with the length of the remaining format (each conversion consumes at least
  its type character); no fuel is needed. The calendar conversion is loop-free
  (divisions by the cycle lengths); its month table is checked exhaustively over the
  days of the year for both leap flags. The clock claims assume nothing of the zone but
  a fixed offset (C16, C17) or the offsets around one transition (C18). Widths: the
  year has four digits and the other fields two because \<open>valid_datetime\<close> bounds them
  (\<open>valid_datetime_bounds\<close>) and \<open>%Y\<close> pads to four digits, as CPython does since
  3.12.5/3.13 (gh-120713); older versions on glibc print a year below 1000 unpadded.
  The exit status reads a \<open>SystemExit\<close> code as a C \<open>long long\<close>: in range it
  keeps the low 8 bits, out of range the status is that of \<open>-1\<close>, 255.

  \<^bold>\<open>What the lemmas show.\<close> The handlers' behaviour on every branch, errors
  included, and that the preview opens the file the retrieval wrote whatever the clock
  does later (C1--C7); the output name's shape, its round trip, exactly which clock
  readings collide, and the soundness of its parser (C8--C10, C12); the request is well
  formed (C11); the environment precedence of \<open>load_dotenv\<close> and the logging set-up
  (C13, C14); an exit status 0 means the work was done and logged, or a
  \<open>SystemExit\<close> with a code that is a multiple of 256 (C15); a later invocation at a
  different second keeps the earlier output (C16); \<open>datetime.now()\<close>: unique names
  at a fixed offset, and the collision of names in the repeated hour (C17, C18); the
  lines the log handler writes: their shape, and reading them back (C19, C20).

  \<^bold>\<open>Constants of the standard library.\<close> \<open>datetime.now()\<close>, the calendar,
  \<open>strftime\<close> and the logging formatter are CPython code the script calls on lines
  19, 24 and 55; their definitions are mapped to those lines, the call sites whose
  behaviour they fix.

  \<^bold>\<open>Not modelled.\<close> The internals of \<open>cdsapi\<close> (HTTP, queueing, download),
  of \<open>xarray\<close>/\<open>netCDF4\<close> (parsing a NetCDF file, the text of a dataset's
  \<open>str\<close>) and of python-dotenv's file parser are libraries the script only calls:
  they are parameters or inputs. The zone database (which offset is in force when) is
  an input of \<open>datetime_now\<close>. The conversion of the float \<open>time.time()\<close> to
  seconds and microseconds (rounding), and the leap-second clamp \<open>ss = min(ss, 59)\<close>
  (POSIX time has no leap seconds) are not modelled. The creation time of a log record
  and \<open>repr(record.__dict__)\<close> are inputs of the formatter; the attributes of a
  \<open>LogRecord\<close> without a string value, numeric conversions of \<open>%\<close>-formatting and
  the format check of \<open>Formatter.validate\<close> are not modelled. The
  \<open>~/.cdsapirc\<close> fallback of the client configuration is inside the client
  constructor, a parameter.
\<close>

section \<open>Two invocations sharing the file system\<close>

text \<open>The spec promises an output name unique per second-resolution invocation. Two
  invocations of the script, one after the other, each in a fresh interpreter with its
  own clock: the second one starts on the files the first one left.\<close>

definition two_runs ::
  "(client_cfg \<Rightarrow> pyexc + 'c) \<Rightarrow> 'c retrieve_fn \<Rightarrow> 'd open_fn \<Rightarrow> ('d \<Rightarrow> string) \<Rightarrow>
   (string \<rightharpoonup> string) \<Rightarrow> (string \<times> string option) list option \<Rightarrow> fsys \<Rightarrow>
   (nat \<Rightarrow> datetime) \<Rightarrow> (nat \<Rightarrow> datetime) \<Rightarrow> ((pyexc + unit) \<times> world) \<times> ((pyexc + unit) \<times> world)" where
  "two_runs mk retrieve opn repr env dot fs clk1 clk2 =
     (let run1 = run_script mk retrieve opn repr (fresh_world env dot fs clk1);
          run2 = run_script mk retrieve opn repr (fresh_world env dot (files (snd run1)) clk2)
      in (run1, run2))"

section \<open>Properties across components\<close>

text \<open>C15 (exit status 0 means the work was done): in a fresh interpreter, a run
  whose exit status is 0 either returned, after the reader opened the file named from
  the clock and the start, the success and the dataset summary were logged at
  \<open>INFO\<close>, or was ended by a \<open>SystemExit\<close> whose code, a C \<open>long long\<close>, is a
  multiple of 256.\<close>

theorem exit_status_zero:
  assumes "log_handler w = None" "run_script mk retrieve opn repr w = (r, w')" "exit_status r = 0"
  shows "(r = Inr () \<and>
          (\<exists>d. opn (files w') (generate_output_filename ''extract'' (clock w (now_calls w))) = Inr d \<and>
             log w' = log w @
               [\<lparr>rec_level = INFO, rec_msg = msg_extract_start (generate_output_filename ''extract'' (clock w (now_calls w)))\<rparr>,
                \<lparr>rec_level = INFO, rec_msg = msg_extract_ok (generate_output_filename ''extract'' (clock w (now_calls w)))\<rparr>,
                \<lparr>rec_level = INFO, rec_msg = msg_preview (repr d)\<rparr>])) \<or>
         (\<exists>c. r = Inl (SystemExit c) \<and> - (2 ^ 63) \<le> c \<and> c < 2 ^ 63 \<and> c mod 256 = 0)"
proof (cases r)
  case (Inl e)
  with assms(3) show ?thesis by (cases e) (auto split: if_splits)
next
  case (Inr u)
  with run_script_Inr [OF assms(1)] assms(2) show ?thesis by auto
qed

text \<open>C16 (a later invocation keeps the earlier output): when the service writes
  only its target and the zone's UTC offset is fixed, a second invocation whose clock
  reads a different second from the first leaves the first invocation's output file
  as the first invocation left it, whatever either run did.\<close>

theorem two_runs_keep_first_output:
  assumes "retrieve_local retrieve"
    and "datetime_now (\<lambda>_. off) t u = Inr (clk 0)" "datetime_now (\<lambda>_. off) t' u' = Inr (clk' 0)"
    and "t \<noteq> t'"
    and "two_runs mk retrieve opn repr env dot fs clk clk' = ((r, w), (r', w'))"
  shows "files w' (generate_output_filename ''extract'' (clk 0)) =
         files w (generate_output_filename ''extract'' (clk 0))"
proof -
  let ?v = "fresh_world env dot (files w) clk'"
  have r': "run_script mk retrieve opn repr ?v = (r', w')"
    using assms(5) by (auto simp: two_runs_def Let_def)
  have "generate_output_filename ''extract'' (clk 0) \<noteq> generate_output_filename ''extract'' (clk' 0)"
    using fixed_offset_name_inj [OF assms(2,3)] assms(4) by blast
  then have "generate_output_filename ''extract'' (clk 0) \<noteq>
      generate_output_filename ''extract'' (clock ?v (now_calls ?v))"
    by (simp add: fresh_world_def)
  from run_script_files_other [OF assms(1) this, of mk opn repr] r' show ?thesis
    by (simp add: fresh_world_def)
qed

section \<open>Witnesses\<close>

theorem exit_status_zero_witness:
  "log_handler spec_start = None \<and>
   exit_status (fst (run_script (\<lambda>cfg. Inr ()) fake_retrieve fake_open fake_repr spec_start)) = 0 \<and>
   fake_open (files (snd (run_script (\<lambda>cfg. Inr ()) fake_retrieve fake_open fake_repr spec_start)))
     ''extract_20250101_120000.nc'' = Inr cdf_magic \<and>
   log (snd (run_script (\<lambda>cfg. Inr ()) fake_retrieve fake_open fake_repr spec_start)) =
     [\<lparr>rec_level = INFO, rec_msg = msg_extract_start ''extract_20250101_120000.nc''\<rparr>,
      \<lparr>rec_level = INFO, rec_msg = msg_extract_ok ''extract_20250101_120000.nc''\<rparr>,
      \<lparr>rec_level = INFO, rec_msg = msg_preview (fake_repr cdf_magic)\<rparr>]"
proof -
  let ?run = "run_script (\<lambda>cfg. Inr ()) fake_retrieve fake_open fake_repr spec_start"
  have h1: "log_handler spec_start = None" by (simp add: spec_start_def fresh_world_def)
  have f: "generate_output_filename ''extract'' (clock spec_start (now_calls spec_start)) =
      ''extract_20250101_120000.nc''"
    by (simp add: spec_start_def fresh_world_def spec_clock_filename)
  have r: "fst ?run = Inr ()"
    by (simp add: spec_start_def run_script_def module_init_def load_dotenv_def fresh_world_def
        basicConfig_def main_def extract_data_def preview_dataset_def fake_retrieve_def fake_open_def
        log_emit_def less_eq_level_def spec_clock_filename Let_def read_clock_def)
  have o: "fake_open (files (snd ?run)) ''extract_20250101_120000.nc'' = Inr cdf_magic"
    by (simp add: spec_start_def run_script_def module_init_def load_dotenv_def fresh_world_def
        basicConfig_def main_def extract_data_def preview_dataset_def fake_retrieve_def fake_open_def
        log_emit_def less_eq_level_def spec_clock_filename Let_def read_clock_def)
  have h3: "exit_status (fst ?run) = 0" using r by simp
  from exit_status_zero [where mk = "\<lambda>cfg. Inr ()" and retrieve = fake_retrieve and opn = fake_open
      and repr = fake_repr, OF h1 prod.collapse [symmetric] h3] r f
  obtain d where "fake_open (files (snd ?run)) ''extract_20250101_120000.nc'' = Inr d"
    "log (snd ?run) = log spec_start @
       [\<lparr>rec_level = INFO, rec_msg = msg_extract_start ''extract_20250101_120000.nc''\<rparr>,
        \<lparr>rec_level = INFO, rec_msg = msg_extract_ok ''extract_20250101_120000.nc''\<rparr>,
        \<lparr>rec_level = INFO, rec_msg = msg_preview (fake_repr d)\<rparr>]"
    by auto
  with o h1 h3 show ?thesis by (simp add: spec_start_def fresh_world_def)
qed

text \<open>Two invocations one second apart in UTC, with the test service.\<close>

theorem two_runs_keep_first_output_witness:
  "retrieve_local fake_retrieve \<and>
   datetime_now (\<lambda>_. 0) 1735732800 0 = Inr spec_clock \<and>
   datetime_now (\<lambda>_. 0) 1735732801 0 = Inr (spec_clock\<lparr>second := 1\<rparr>) \<and>
   files (snd (snd (two_runs (\<lambda>cfg. Inr ()) fake_retrieve fake_open fake_repr Map.empty None Map.empty
       (\<lambda>_. spec_clock) (\<lambda>_. spec_clock\<lparr>second := 1\<rparr>)))) ''extract_20250101_120000.nc'' = Some cdf_magic"
proof -
  let ?tr = "two_runs (\<lambda>cfg. Inr ()) fake_retrieve fake_open fake_repr Map.empty None Map.empty
       (\<lambda>_. spec_clock) (\<lambda>_. spec_clock\<lparr>second := 1\<rparr>)"
  have n2: "datetime_now (\<lambda>_. 0) 1735732801 0 = Inr (spec_clock\<lparr>second := 1\<rparr>)"
    by (rule utc_clock_next)
  have f1: "files (snd (fst ?tr)) ''extract_20250101_120000.nc'' = Some cdf_magic"
    by (simp add: two_runs_def run_script_def module_init_def load_dotenv_def fresh_world_def
        basicConfig_def main_def extract_data_def preview_dataset_def fake_retrieve_def fake_open_def
        log_emit_def less_eq_level_def spec_clock_filename Let_def read_clock_def)
  have h5: "?tr = ((fst (fst ?tr), snd (fst ?tr)), (fst (snd ?tr), snd (snd ?tr)))" by simp
  have "files (snd (snd ?tr)) (generate_output_filename ''extract'' spec_clock) =
      files (snd (fst ?tr)) (generate_output_filename ''extract'' spec_clock)"
    using two_runs_keep_first_output [where retrieve = fake_retrieve and off = 0
      and t = 1735732800 and u = 0 and t' = 1735732801 and u' = 0
      and clk = "\<lambda>_. spec_clock" and clk' = "\<lambda>_. spec_clock\<lparr>second := 1\<rparr>",
      OF fake_retrieve_local utc_clock_now n2 _ h5] by simp
  with f1 fake_retrieve_local utc_clock_now n2 show ?thesis by (simp add: spec_clock_filename)
qed

end
